theory Spec2Isabelle
  imports Main "HOL-Library.Word" "HOL-Library.AList"
begin

unbundle bit_operations_syntax

section \<open>The packages the file system layer is written against\<close>

text \<open>
  The read-only, versioned FUSE view of pkg/fs (rover.go, versions.go) is written
  against the packages blob, search, schema, os, time and fuse. Only the parts the two
  files use are given here: the types by their fields, and every function whose body is
  not in the two files as a field of the parameter record \<open>pkg\<close> or of the
  collaborator record \<open>CamliFileSystem\<close>.
\<close>

subsection \<open>blob.Ref\<close>

text \<open>
  A blob.Ref is a content hash. A valid one is identified by the string that
  Ref.String prints (the key of DescribeResponse.Meta); the zero Ref is not valid.
\<close>

datatype blob_Ref = ZeroRef | MkRef string

fun Valid :: "blob_Ref \<Rightarrow> bool" where
  "Valid ZeroRef = False"
| "Valid (MkRef s) = True"

fun Ref_String :: "blob_Ref \<Rightarrow> string" where
  "Ref_String ZeroRef = ''<invalid-blob.Ref>''"
| "Ref_String (MkRef s) = s"

subsection \<open>time.Time\<close>

text \<open>
  An instant, counted in nanoseconds from the zero Time (the value of an unset
  time.Time field).
\<close>

type_synonym time = int

definition IsZero :: "time \<Rightarrow> bool" where
  "IsZero t = (t = 0)"

definition After :: "time \<Rightarrow> time \<Rightarrow> bool" where
  "After t u = (u < t)"

definition Minute :: int where
  "Minute = 60 * 1000000000"

subsection \<open>search: described blobs, claims, attribute search\<close>

text \<open>
  url.Values is a map from keys to value lists: an association list with one entry per
  key. url.Values.Get gives the first value of the key, the empty string when there is
  none.
\<close>

type_synonym url_Values = "(string \<times> string list) list"

definition Values_Get :: "url_Values \<Rightarrow> string \<Rightarrow> string" where
  "Values_Get v key = (case map_of v key of None \<Rightarrow> [] | Some [] \<Rightarrow> [] | Some (x # xs) \<Rightarrow> x)"

record DescribedPermanode =
  Attr :: url_Values

record FileInfo =
  File_Size :: "64 word"

text \<open>The two pointer fields are \<open>None\<close> when the pointer is nil.\<close>

record DescribedBlob =
  BlobRef :: blob_Ref
  CamliType :: string
  Permanode :: "DescribedPermanode option"
  File :: "FileInfo option"

record DescribeRequest =
  req_BlobRef :: blob_Ref
  req_BlobRefs :: "blob_Ref list"
  req_Depth :: int
  req_At :: time

record DescribeResponse =
  Meta :: "string \<Rightarrow> DescribedBlob option"

record Claim =
  Value :: string
  Date :: time

record WithAttrRequest =
  req_N :: int
  req_Attr :: string

record WithAttrItem =
  wi_Permanode :: blob_Ref

type_synonym error = string

type_synonym FileReader = "8 word list"

text \<open>
  The collaborators reached through \<open>n.fs\<close>: the search client and the blob fetcher
  behind schema.NewFileReader. Every operation below takes the collaborators as they
  answer during that operation, so two operations may see different answers.
\<close>

record CamliFileSystem =
  Describe :: "DescribeRequest \<Rightarrow> error + DescribeResponse"
  GetClaims :: "blob_Ref \<times> string \<Rightarrow> error + Claim list"
  GetPermanodesWithAttr :: "WithAttrRequest \<Rightarrow> error + WithAttrItem list"
  NewFileReader :: "blob_Ref \<Rightarrow> error + FileReader"

text \<open>The queries an operation sent to the search client, in the order it sent them.\<close>

datatype call =
    CallDescribe DescribeRequest
  | CallGetClaims blob_Ref string
  | CallGetPermanodesWithAttr WithAttrRequest

subsection \<open>fuse and os\<close>

datatype fuse_Error = EIO | ENOENT | EPERM

record fuse_Attr =
  Inode :: "64 word"
  Mode :: "32 word"
  Uid :: "32 word"
  Gid :: "32 word"
  Size :: "64 word"
  Blocks :: "64 word"
  Mtime :: time
  Atime :: time
  Ctime :: time
  Crtime :: time

record fuse_Dirent =
  Dirent_Name :: string
  Dirent_Inode :: "64 word"

definition ModeDir :: "32 word" where
  "ModeDir = push_bit 31 1"

definition ModeSymlink :: "32 word" where
  "ModeSymlink = push_bit 27 1"


text \<open>
  A nil pointer dereference or a write to a nil map stops the operation. What it has
  written to the node by then stays written, so a panicking operation yields the panic
  together with the node as it stands.
\<close>

datatype panic = NilDereference | NilMapWrite

subsection \<open>Functions and values defined outside the two files\<close>

text \<open>
  \<open>Sum64\<close> is blob.Ref.Sum64, \<open>Parse\<close> is blob.Parse, \<open>isDir\<close> and
  \<open>isWriteFlags\<close> are helpers of package fs, \<open>xattr_load\<close> is what xattr.load
  stores for a described permanode, \<open>Date_String\<close> is time.Time.String,
  \<open>serverStart\<close> the package's start time, and \<open>noXattr_Setxattr\<close> and
  \<open>noXattr_Removexattr\<close> are what the two methods of the embedded type noXattr
  return (\<open>None\<close> for a nil fuse.Error).
\<close>

type_synonym xattrs = "(string \<times> 8 word list) list"

record pkg =
  Sum64 :: "blob_Ref \<Rightarrow> 64 word"
  Parse :: "string \<Rightarrow> blob_Ref option"
  isDir :: "DescribedPermanode \<Rightarrow> bool"
  isWriteFlags :: "32 word \<Rightarrow> bool"
  xattr_load :: "DescribedPermanode \<Rightarrow> xattrs"
  Date_String :: "time \<Rightarrow> string"
  serverStart :: time
  Getuid :: int
  Getgid :: int
  noXattr_Setxattr :: "fuse_Error option"
  noXattr_Removexattr :: "fuse_Error option"

definition ParseOrZero :: "pkg \<Rightarrow> string \<Rightarrow> blob_Ref" where
  "ParseOrZero p s = (case Parse p s of None \<Rightarrow> ZeroRef | Some r \<Rightarrow> r)"

section \<open>The nodes of rover.go\<close>

text \<open>
  The three node structs. The \<open>parent\<close> pointer (read by fullPath for log lines
  only), the \<open>fs\<close> pointer (passed to every operation instead) and the mutex are
  left out. A map field is \<open>None\<close> while it is nil; a map is an association list
  with one entry per key, and a range loop over it visits the entries in list order
  (Go leaves the order open).
\<close>

record roFileVersion =
  fv_permanode :: blob_Ref
  fv_name :: string
  fv_symLink :: bool
  fv_target :: string
  fv_content :: blob_Ref
  fv_size :: "64 word"
  fv_mtime :: time
  fv_atime :: time
  fv_xattrs :: "xattrs option"

datatype roDirV =
  RoDirV (dv_permanode: blob_Ref) (dv_name: string)
    (dv_children: "(string \<times> roFileOrDir) list option") (dv_xattrs: "xattrs option")
and roFileLikeDir =
  RoFileLikeDir (fl_permanode: blob_Ref) (fl_name: string) (fl_symLink: bool)
    (fl_target: string) (fl_children: "(string \<times> roFileOrDir) list option")
    (fl_xattrs: "xattrs option")
and roFileOrDir =
    DirV roDirV
  | FileLikeDir roFileLikeDir
  | FileVersion roFileVersion

definition newRODirV :: "blob_Ref \<Rightarrow> string \<Rightarrow> roDirV" where
  "newRODirV permanode name = RoDirV permanode name None None"

definition newROFileLikeDir :: "blob_Ref \<Rightarrow> string \<Rightarrow> roFileLikeDir" where
  "newROFileLikeDir permanode name = RoFileLikeDir permanode name False [] None None"

subsection \<open>roFileVersion\<close>

definition roFileVersion_modTime :: "pkg \<Rightarrow> roFileVersion \<Rightarrow> time" where
  "roFileVersion_modTime p n =
     (if \<not> IsZero (fv_mtime n) then fv_mtime n else serverStart p)"

definition roFileVersion_accessTime :: "pkg \<Rightarrow> roFileVersion \<Rightarrow> time" where
  "roFileVersion_accessTime p n =
     (if \<not> IsZero (fv_atime n) then fv_atime n else roFileVersion_modTime p n)"

text \<open>
  \<open>size\<close> is an int64: \<open>size > 0\<close> is the signed comparison, \<open>uint64(size)\<close>
  keeps the bits.
\<close>

definition roFileVersion_Attr :: "pkg \<Rightarrow> roFileVersion \<Rightarrow> fuse_Attr" where
  "roFileVersion_Attr p n =
     (let size = fv_size n;
          blocks = (if 0 <s size then size div 512 + 1 else 0);
          inode = Sum64 p (fv_permanode n);
          mode = (if fv_symLink n then 256 OR ModeSymlink else 256)
      in \<lparr>Inode = inode, Mode = mode,
          Uid = word_of_int (Getuid p), Gid = word_of_int (Getgid p),
          Size = size, Blocks = blocks,
          Mtime = roFileVersion_modTime p n, Atime = roFileVersion_accessTime p n,
          Ctime = serverStart p, Crtime = serverStart p\<rparr>)"





definition roFileVersion_Fsync :: "roFileVersion \<Rightarrow> fuse_Error option" where
  "roFileVersion_Fsync n = None"

subsection \<open>The directory listing shared by roDirV.ReadDir and roFileLikeDir.ReadDir\<close>

text \<open>
  Both ReadDir methods run the same loop body over their children: the type switch
  has a case for *roDirV and one for *roFileVersion; any other child (a
  *roFileLikeDir) falls to the default case, which logs and leaves \<open>ino\<close> at its
  zero value.
\<close>

fun ReadDir_dirent :: "pkg \<Rightarrow> string \<times> roFileOrDir \<Rightarrow> fuse_Dirent" where
  "ReadDir_dirent p (name, DirV v) =
     \<lparr>Dirent_Name = name, Dirent_Inode = Sum64 p (dv_permanode v)\<rparr>"
| "ReadDir_dirent p (name, FileVersion v) =
     \<lparr>Dirent_Name = name, Dirent_Inode = Sum64 p (fv_permanode v)\<rparr>"
| "ReadDir_dirent p (name, FileLikeDir v) =
     \<lparr>Dirent_Name = name, Dirent_Inode = 0\<rparr>"

text \<open>Ranging over a nil map visits nothing.\<close>

definition ReadDir_ents :: "pkg \<Rightarrow> (string \<times> roFileOrDir) list option \<Rightarrow> fuse_Dirent list" where
  "ReadDir_ents p children =
     (case children of None \<Rightarrow> [] | Some ch \<Rightarrow> map (ReadDir_dirent p) ch)"

text \<open>\<open>n.children[name]\<close> read from a map that may be nil.\<close>

definition children_get :: "(string \<times> 'a) list option \<Rightarrow> string \<Rightarrow> 'a option" where
  "children_get children name =
     (case children of None \<Rightarrow> None | Some ch \<Rightarrow> map_of ch name)"

subsection \<open>roFileLikeDir\<close>

definition roFileLikeDir_Attr :: "pkg \<Rightarrow> roFileLikeDir \<Rightarrow> fuse_Attr" where
  "roFileLikeDir_Attr p n =
     \<lparr>Inode = Sum64 p (fl_permanode n), Mode = ModeDir OR 320,
      Uid = word_of_int (Getuid p), Gid = word_of_int (Getgid p),
      Size = 0, Blocks = 0, Mtime = 0, Atime = 0, Ctime = 0, Crtime = 0\<rparr>"

definition fl_set_children ::
  "roFileLikeDir \<Rightarrow> (string \<times> roFileOrDir) list option \<Rightarrow> roFileLikeDir" where
  "fl_set_children n ch =
     RoFileLikeDir (fl_permanode n) (fl_name n) (fl_symLink n) (fl_target n) ch (fl_xattrs n)"

text \<open>
  The loop of roFileLikeDir.populate over \<open>res.Claims\<close>. It writes into
  \<open>n.children\<close>, which populate has already set to a fresh map, so the children
  built so far are what the node holds at each of the loop's exits, the panic on a
  described blob without file information included. The result is populate's error
  (\<open>None\<close> for nil), the children map and the Describe calls made.
\<close>

fun roFileLikeDir_populate_claims ::
  "pkg \<Rightarrow> CamliFileSystem \<Rightarrow> blob_Ref \<Rightarrow> Claim list \<Rightarrow> (string \<times> roFileOrDir) list
     \<Rightarrow> (panic \<times> (string \<times> roFileOrDir) list)
         + (error option \<times> (string \<times> roFileOrDir) list \<times> call list)" where
  "roFileLikeDir_populate_claims p fs permanode [] children = Inr (None, children, [])"
| "roFileLikeDir_populate_claims p fs permanode (cl # cls) children =
     (case Parse p (Value cl) of
        None \<Rightarrow> Inr (Some ''invalid blobref'', children, [])
      | Some pn \<Rightarrow>
          (let req = \<lparr>req_BlobRef = pn, req_BlobRefs = [], req_Depth = 1, req_At = Date cl\<rparr>
           in case Describe fs req of
                Inl err \<Rightarrow> Inr (None, children, [CallDescribe req])
              | Inr res \<Rightarrow>
                  (case Meta res (Value cl) of
                     None \<Rightarrow> Inr (Some ''dir blobref not described'', children, [CallDescribe req])
                   | Some db \<Rightarrow>
                       (case File db of
                          None \<Rightarrow> Inl (NilDereference, children)
                        | Some f \<Rightarrow>
                            (let name = Date_String p (Date cl);
                                 v = \<lparr>fv_permanode = permanode, fv_name = name,
                                      fv_symLink = False, fv_target = [],
                                      fv_content = BlobRef db, fv_size = File_Size f,
                                      fv_mtime = 0, fv_atime = 0, fv_xattrs = None\<rparr>
                             in case roFileLikeDir_populate_claims p fs permanode cls
                                       (AList.update name (FileVersion v) children) of
                                  Inl pa \<Rightarrow> Inl pa
                                | Inr (err, children', calls) \<Rightarrow>
                                    Inr (err, children', CallDescribe req # calls))))))"

definition roFileLikeDir_populate ::
  "pkg \<Rightarrow> CamliFileSystem \<Rightarrow> roFileLikeDir
     \<Rightarrow> (panic \<times> roFileLikeDir) + (error option \<times> roFileLikeDir \<times> call list)" where
  "roFileLikeDir_populate p fs n =
     (case fl_children n of
        Some ch \<Rightarrow> Inr (None, n, [])
      | None \<Rightarrow>
          (case GetClaims fs (fl_permanode n, ''camliContent'') of
             Inl err \<Rightarrow>
               Inr (Some ''fs.roFileLikeDir: GetClaims error in ReadDir:'', n,
                    [CallGetClaims (fl_permanode n) ''camliContent''])
           | Inr claims \<Rightarrow>
               (case roFileLikeDir_populate_claims p fs (fl_permanode n) claims [] of
                  Inl (pa, children) \<Rightarrow> Inl (pa, fl_set_children n (Some children))
                | Inr (err, children, calls) \<Rightarrow>
                    Inr (err, fl_set_children n (Some children),
                         CallGetClaims (fl_permanode n) ''camliContent'' # calls))))"

definition roFileLikeDir_ReadDir ::
  "pkg \<Rightarrow> CamliFileSystem \<Rightarrow> roFileLikeDir
     \<Rightarrow> (panic \<times> roFileLikeDir)
         + ((fuse_Error + fuse_Dirent list) \<times> roFileLikeDir \<times> call list)" where
  "roFileLikeDir_ReadDir p fs n =
     (case roFileLikeDir_populate p fs n of
        Inl pa \<Rightarrow> Inl pa
      | Inr (Some err, n', calls) \<Rightarrow> Inr (Inl EIO, n', calls)
      | Inr (None, n', calls) \<Rightarrow> Inr (Inr (ReadDir_ents p (fl_children n')), n', calls))"

definition roFileLikeDir_Lookup ::
  "pkg \<Rightarrow> CamliFileSystem \<Rightarrow> roFileLikeDir \<Rightarrow> string
     \<Rightarrow> (panic \<times> roFileLikeDir)
         + ((fuse_Error + roFileOrDir) \<times> roFileLikeDir \<times> call list)" where
  "roFileLikeDir_Lookup p fs n name =
     (case roFileLikeDir_populate p fs n of
        Inl pa \<Rightarrow> Inl pa
      | Inr (Some err, n', calls) \<Rightarrow> Inr (Inl EIO, n', calls)
      | Inr (None, n', calls) \<Rightarrow>
          (case children_get (fl_children n') name of
             Some n2 \<Rightarrow> Inr (Inr n2, n', calls)
           | None \<Rightarrow> Inr (Inl ENOENT, n', calls)))"

subsection \<open>roDirV\<close>

definition roDirV_Attr :: "pkg \<Rightarrow> roDirV \<Rightarrow> fuse_Attr" where
  "roDirV_Attr p n =
     \<lparr>Inode = Sum64 p (dv_permanode n), Mode = ModeDir OR 320,
      Uid = word_of_int (Getuid p), Gid = word_of_int (Getgid p),
      Size = 0, Blocks = 0, Mtime = 0, Atime = 0, Ctime = 0, Crtime = 0\<rparr>"

definition dv_set_children ::
  "roDirV \<Rightarrow> (string \<times> roFileOrDir) list option \<Rightarrow> roDirV" where
  "dv_set_children n ch = RoDirV (dv_permanode n) (dv_name n) ch (dv_xattrs n)"

text \<open>
  The body of the loop of roDirV.populate for one attribute \<open>k\<close> with values \<open>v\<close>:
  the children map after it. Each child is stored with the extended attributes that
  \<open>xattr().load(child.Permanode)\<close> gives it.
\<close>

definition roDirV_populate_attr ::
  "pkg \<Rightarrow> DescribeResponse \<Rightarrow> string \<Rightarrow> string list \<Rightarrow> (string \<times> roFileOrDir) list
     \<Rightarrow> (panic \<times> (string \<times> roFileOrDir) list) + (string \<times> roFileOrDir) list" where
  "roDirV_populate_attr p res k v children =
     (if take 10 k \<noteq> ''camliPath:'' \<or> length v < 1 then Inr children
      else
        (let name = drop 10 k; childRef = hd v
         in case Meta res childRef of
              None \<Rightarrow> Inr children
            | Some child \<Rightarrow>
                (case Permanode child of
                   None \<Rightarrow> Inl (NilDereference, children)
                 | Some cp \<Rightarrow>
                     (let target = Values_Get (Attr cp) ''camliSymlinkTarget''
                      in if target \<noteq> [] then
                           Inr (AList.update name
                                 (FileLikeDir (RoFileLikeDir (ParseOrZero p childRef) name True
                                    target None (Some (xattr_load p cp)))) children)
                         else if isDir p cp then
                           Inr (AList.update name
                                 (DirV (RoDirV (ParseOrZero p childRef) name None
                                    (Some (xattr_load p cp)))) children)
                         else
                           (let contentRef = Values_Get (Attr cp) ''camliContent''
                            in if contentRef \<noteq> [] then
                                 (case Meta res contentRef of
                                    None \<Rightarrow> Inr children
                                  | Some content \<Rightarrow>
                                      if CamliType content \<noteq> ''file'' then Inr children
                                      else
                                        Inr (AList.update name
                                              (FileLikeDir (RoFileLikeDir
                                                 (ParseOrZero p childRef) name False []
                                                 None (Some (xattr_load p cp)))) children))
                               else Inr children)))))"

fun roDirV_populate_attrs ::
  "pkg \<Rightarrow> DescribeResponse \<Rightarrow> url_Values \<Rightarrow> (string \<times> roFileOrDir) list
     \<Rightarrow> (panic \<times> (string \<times> roFileOrDir) list) + (string \<times> roFileOrDir) list" where
  "roDirV_populate_attrs p res [] children = Inr children"
| "roDirV_populate_attrs p res ((k, v) # kvs) children =
     (case roDirV_populate_attr p res k v children of
        Inl pa \<Rightarrow> Inl pa
      | Inr children' \<Rightarrow> roDirV_populate_attrs p res kvs children')"

definition roDirV_populate ::
  "pkg \<Rightarrow> CamliFileSystem \<Rightarrow> roDirV
     \<Rightarrow> (panic \<times> roDirV) + (error option \<times> roDirV \<times> call list)" where
  "roDirV_populate p fs n =
     (case dv_children n of
        Some ch \<Rightarrow> Inr (None, n, [])
      | None \<Rightarrow>
          (let req = \<lparr>req_BlobRef = dv_permanode n, req_BlobRefs = [], req_Depth = 3,
                      req_At = 0\<rparr>
           in case Describe fs req of
                Inl err \<Rightarrow> Inr (None, n, [CallDescribe req])
              | Inr res \<Rightarrow>
                  (case Meta res (Ref_String (dv_permanode n)) of
                     None \<Rightarrow> Inr (Some ''dir blobref not described'', n, [CallDescribe req])
                   | Some db \<Rightarrow>
                       (case Permanode db of
                          None \<Rightarrow> Inl (NilDereference, n)
                        | Some pn \<Rightarrow>
                            (case roDirV_populate_attrs p res (Attr pn) [] of
                               Inl (pa, children) \<Rightarrow>
                                 Inl (pa, dv_set_children n (Some children))
                             | Inr children \<Rightarrow>
                                 Inr (None, dv_set_children n (Some children),
                                      [CallDescribe req]))))))"

definition roDirV_ReadDir ::
  "pkg \<Rightarrow> CamliFileSystem \<Rightarrow> roDirV
     \<Rightarrow> (panic \<times> roDirV) + ((fuse_Error + fuse_Dirent list) \<times> roDirV \<times> call list)" where
  "roDirV_ReadDir p fs n =
     (case roDirV_populate p fs n of
        Inl pa \<Rightarrow> Inl pa
      | Inr (Some err, n', calls) \<Rightarrow> Inr (Inl EIO, n', calls)
      | Inr (None, n', calls) \<Rightarrow> Inr (Inr (ReadDir_ents p (dv_children n')), n', calls))"

definition roDirV_Lookup ::
  "pkg \<Rightarrow> CamliFileSystem \<Rightarrow> roDirV \<Rightarrow> string
     \<Rightarrow> (panic \<times> roDirV) + ((fuse_Error + roFileOrDir) \<times> roDirV \<times> call list)" where
  "roDirV_Lookup p fs n name =
     (case roDirV_populate p fs n of
        Inl pa \<Rightarrow> Inl pa
      | Inr (Some err, n', calls) \<Rightarrow> Inr (Inl EIO, n', calls)
      | Inr (None, n', calls) \<Rightarrow>
          (case children_get (dv_children n') name of
             Some n2 \<Rightarrow> Inr (Inr n2, n', calls)
           | None \<Rightarrow> Inr (Inl ENOENT, n', calls)))"

section \<open>The roots directory of versions.go\<close>

definition versionsRefreshTime :: int where
  "versionsRefreshTime = 1 * Minute"

text \<open>
  The fields of versionsDir that its methods use (\<open>ents\<close> and \<open>modTime\<close> are never
  read or written). \<open>n.m\<close> is only read while it may be nil and is replaced by a
  fresh map before it is written, so nil and the empty map are one value here;
  \<open>n.children\<close> is tested for nil and keeps the distinction.
\<close>

record versionsDir =
  vd_lastQuery :: time
  vd_m :: "(string \<times> blob_Ref) list"
  vd_children :: "(string \<times> roDirV) list option"

definition versionsDir_Attr :: "pkg \<Rightarrow> versionsDir \<Rightarrow> fuse_Attr" where
  "versionsDir_Attr p n =
     \<lparr>Inode = 0, Mode = ModeDir OR 320,
      Uid = word_of_int (Getuid p), Gid = word_of_int (Getgid p),
      Size = 0, Blocks = 0, Mtime = 0, Atime = 0, Ctime = 0, Crtime = 0\<rparr>"

text \<open>The Describe request that condRefresh builds from the two search results.\<close>

definition condRefresh_request :: "WithAttrItem list \<Rightarrow> WithAttrItem list \<Rightarrow> DescribeRequest" where
  "condRefresh_request rootRes impRes =
     \<lparr>req_BlobRef = ZeroRef,
      req_BlobRefs = map wi_Permanode rootRes @ map wi_Permanode impRes,
      req_Depth = 1, req_At = 0\<rparr>"

text \<open>
  The loop over the roots: \<open>currentRoots\<close> (the names set to true) and \<open>n.m\<close>
  after one item, and after all of them.
\<close>

fun condRefresh_root ::
  "DescribeResponse \<Rightarrow> WithAttrItem \<Rightarrow> string list \<times> (string \<times> blob_Ref) list
     \<Rightarrow> string list \<times> (string \<times> blob_Ref) list" where
  "condRefresh_root dres wi (currentRoots, m) =
     (let pn = wi_Permanode wi
      in case Meta dres (Ref_String pn) of
           None \<Rightarrow> (currentRoots, m)
         | Some db \<Rightarrow>
             (case Permanode db of
                None \<Rightarrow> (currentRoots, m)
              | Some dp \<Rightarrow>
                  (let name = Values_Get (Attr dp) ''camliRoot''
                   in if name \<noteq> [] then (name # currentRoots, AList.update name pn m)
                      else (currentRoots, m))))"

fun condRefresh_roots ::
  "DescribeResponse \<Rightarrow> WithAttrItem list \<Rightarrow> string list \<times> (string \<times> blob_Ref) list
     \<Rightarrow> string list \<times> (string \<times> blob_Ref) list" where
  "condRefresh_roots dres [] acc = acc"
| "condRefresh_roots dres (wi # wis) acc = condRefresh_roots dres wis (condRefresh_root dres wi acc)"

text \<open>strings.Replace(s, old, new, -1) for one-character \<open>old\<close> and \<open>new\<close>.\<close>

definition Replace :: "string \<Rightarrow> char \<Rightarrow> char \<Rightarrow> string" where
  "Replace s old new = map (\<lambda>c. if c = old then new else c) s"

text \<open>The loop over the importers: \<open>n.m\<close> after one item, and after all of them.\<close>

definition condRefresh_importer ::
  "DescribeResponse \<Rightarrow> WithAttrItem \<Rightarrow> (string \<times> blob_Ref) list \<Rightarrow> (string \<times> blob_Ref) list" where
  "condRefresh_importer dres wi m =
     (let pn = wi_Permanode wi
      in case Meta dres (Ref_String pn) of
           None \<Rightarrow> m
         | Some db \<Rightarrow>
             (case Permanode db of
                None \<Rightarrow> m
              | Some dp \<Rightarrow>
                  (let name = Values_Get (Attr dp) ''camliImportRoot''
                   in if name \<noteq> [] then
                        AList.update
                          (''importer-'' @ Replace (Replace name (CHR '':'') (CHR ''-''))
                             (CHR ''/'') (CHR ''-''))
                          pn m
                      else m)))"

fun condRefresh_importers ::
  "DescribeResponse \<Rightarrow> WithAttrItem list \<Rightarrow> (string \<times> blob_Ref) list \<Rightarrow> (string \<times> blob_Ref) list" where
  "condRefresh_importers dres [] m = m"
| "condRefresh_importers dres (wi # wis) m =
     condRefresh_importers dres wis (condRefresh_importer dres wi m)"

text \<open>
  condRefresh reads the clock twice: \<open>now\<close> for the freshness test and \<open>now'\<close>
  for the new \<open>lastQuery\<close>. The two searches run in a syncutil.Group: both are
  always sent, and \<open>grp.Err()\<close> is an error when either failed.
\<close>

definition condRefresh ::
  "CamliFileSystem \<Rightarrow> time \<Rightarrow> time \<Rightarrow> versionsDir
     \<Rightarrow> fuse_Error option \<times> versionsDir \<times> call list" where
  "condRefresh fs now now' n =
     (if After (vd_lastQuery n) (now - versionsRefreshTime) then (None, n, [])
      else
        (let rootReq = \<lparr>req_N = 100, req_Attr = ''camliRoot''\<rparr>;
             impReq = \<lparr>req_N = 100, req_Attr = ''camliImportRoot''\<rparr>;
             searches = [CallGetPermanodesWithAttr rootReq, CallGetPermanodesWithAttr impReq]
         in case GetPermanodesWithAttr fs rootReq of
              Inl err \<Rightarrow> (Some EIO, n, searches)
            | Inr rootRes \<Rightarrow>
                (case GetPermanodesWithAttr fs impReq of
                   Inl err \<Rightarrow> (Some EIO, n, searches)
                 | Inr impRes \<Rightarrow>
                     (let children = (case vd_children n of None \<Rightarrow> [] | Some ch \<Rightarrow> ch);
                          n1 = n\<lparr>vd_m := [], vd_children := Some children\<rparr>;
                          dr = condRefresh_request rootRes impRes
                      in if length (req_BlobRefs dr) = 0 then (None, n1, searches)
                         else
                           (case Describe fs dr of
                              Inl err \<Rightarrow> (Some EIO, n1, searches @ [CallDescribe dr])
                            | Inr dres \<Rightarrow>
                                (let (currentRoots, m1) = condRefresh_roots dres rootRes ([], []);
                                     children' = AList.restrict (set currentRoots) children;
                                     m2 = condRefresh_importers dres impRes m1
                                 in (None,
                                     n\<lparr>vd_m := m2, vd_children := Some children',
                                       vd_lastQuery := now'\<rparr>,
                                     searches @ [CallDescribe dr])))))))"

definition versionsDir_ReadDir ::
  "CamliFileSystem \<Rightarrow> time \<Rightarrow> time \<Rightarrow> versionsDir
     \<Rightarrow> (fuse_Error + fuse_Dirent list) \<times> versionsDir \<times> call list" where
  "versionsDir_ReadDir fs now now' n =
     (case condRefresh fs now now' n of
        (Some err, n', calls) \<Rightarrow> (Inl EIO, n', calls)
      | (None, n', calls) \<Rightarrow>
          (Inr (map (\<lambda>(name, br). \<lparr>Dirent_Name = name, Dirent_Inode = 0\<rparr>) (vd_m n')),
           n', calls))"

text \<open>
  Lookup: a name that \<open>n.m\<close> does not hold reads as the zero Ref. Storing the new
  node writes to \<open>n.children\<close>, which panics while that map is nil.
\<close>

definition versionsDir_Lookup ::
  "CamliFileSystem \<Rightarrow> time \<Rightarrow> time \<Rightarrow> versionsDir \<Rightarrow> string
     \<Rightarrow> (panic \<times> versionsDir) + ((fuse_Error + roDirV) \<times> versionsDir \<times> call list)" where
  "versionsDir_Lookup fs now now' n name =
     (case condRefresh fs now now' n of
        (Some err, n', calls) \<Rightarrow> Inr (Inl err, n', calls)
      | (None, n', calls) \<Rightarrow>
          (let br = (case map_of (vd_m n') name of None \<Rightarrow> ZeroRef | Some r \<Rightarrow> r)
           in if \<not> Valid br then Inr (Inl ENOENT, n', calls)
              else
                (case children_get (vd_children n') name of
                   Some nod \<Rightarrow> Inr (Inr nod, n', calls)
                 | None \<Rightarrow>
                     (case vd_children n' of
                        None \<Rightarrow> Inl (NilMapWrite, n')
                      | Some ch \<Rightarrow>
                          Inr (Inr (newRODirV br name),
                               n'\<lparr>vd_children := Some (AList.update name (newRODirV br name) ch)\<rparr>,
                               calls)))))"

section \<open>The mutating methods each node type declares\<close>






section \<open>Concrete collaborators and nodes\<close>

text \<open>
  Inputs on which the operations are run below: one choice of the outside functions,
  and search clients with fixed answers.
\<close>

subsection \<open>A file permanode with two camliContent claims\<close>

definition pkg0 :: pkg where
  "pkg0 =
     \<lparr>Sum64 = (\<lambda>r. word_of_nat (length (Ref_String r))),
      Parse = (\<lambda>s. if take 5 s = ''sha1-'' then Some (MkRef s) else None),
      isDir = (\<lambda>dp. Values_Get (Attr dp) ''camliNodeType'' = ''directory''),
      isWriteFlags = (\<lambda>flags. flags AND 3 \<noteq> 0),
      xattr_load = (\<lambda>dp. []),
      Date_String = (\<lambda>t. if t = 1577836800 then ''2020-01-01T00:00:00Z''
                          else if t = 1590969600 then ''2020-06-01T00:00:00Z'' else ''later''),
      serverStart = 1700000000, Getuid = 1000, Getgid = 1000,
      noXattr_Setxattr = Some EPERM, noXattr_Removexattr = Some EPERM\<rparr>"

definition blobA :: DescribedBlob where
  "blobA = \<lparr>BlobRef = MkRef ''sha1-a'', CamliType = ''file'', Permanode = None,
            File = Some \<lparr>File_Size = 10\<rparr>\<rparr>"

definition blobB :: DescribedBlob where
  "blobB = \<lparr>BlobRef = MkRef ''sha1-b'', CamliType = ''file'', Permanode = None,
            File = Some \<lparr>File_Size = 20\<rparr>\<rparr>"

definition describe_history :: "DescribeRequest \<Rightarrow> error + DescribeResponse" where
  "describe_history req =
     (if req_BlobRef req = MkRef ''sha1-a'' then Inr \<lparr>Meta = map_of [(''sha1-a'', blobA)]\<rparr>
      else if req_BlobRef req = MkRef ''sha1-b'' then Inr \<lparr>Meta = map_of [(''sha1-b'', blobB)]\<rparr>
      else Inl ''not found'')"

definition fs_history :: CamliFileSystem where
  "fs_history =
     \<lparr>Describe = describe_history,
      GetClaims = (\<lambda>q. Inr [\<lparr>Value = ''sha1-a'', Date = 1577836800\<rparr>,
                             \<lparr>Value = ''sha1-b'', Date = 1590969600\<rparr>]),
      GetPermanodesWithAttr = (\<lambda>req. Inr []),
      NewFileReader = (\<lambda>r. Inr [])\<rparr>"

definition dirF :: roFileLikeDir where
  "dirF = newROFileLikeDir (MkRef ''sha1-f00'') ''notes.txt''"

definition version_t1 :: roFileVersion where
  "version_t1 =
     \<lparr>fv_permanode = MkRef ''sha1-f00'', fv_name = ''2020-01-01T00:00:00Z'',
      fv_symLink = False, fv_target = [], fv_content = MkRef ''sha1-a'', fv_size = 10,
      fv_mtime = 0, fv_atime = 0, fv_xattrs = None\<rparr>"

definition version_t2 :: roFileVersion where
  "version_t2 =
     \<lparr>fv_permanode = MkRef ''sha1-f00'', fv_name = ''2020-06-01T00:00:00Z'',
      fv_symLink = False, fv_target = [], fv_content = MkRef ''sha1-b'', fv_size = 20,
      fv_mtime = 0, fv_atime = 0, fv_xattrs = None\<rparr>"

definition dirF_populated :: roFileLikeDir where
  "dirF_populated =
     RoFileLikeDir (MkRef ''sha1-f00'') ''notes.txt'' False []
       (Some [(''2020-01-01T00:00:00Z'', FileVersion version_t1),
              (''2020-06-01T00:00:00Z'', FileVersion version_t2)]) None"

definition calls_history :: "call list" where
  "calls_history =
     [CallGetClaims (MkRef ''sha1-f00'') ''camliContent'',
      CallDescribe \<lparr>req_BlobRef = MkRef ''sha1-a'', req_BlobRefs = [], req_Depth = 1,
                     req_At = 1577836800\<rparr>,
      CallDescribe \<lparr>req_BlobRef = MkRef ''sha1-b'', req_BlobRefs = [], req_Depth = 1,
                     req_At = 1590969600\<rparr>]"

subsection \<open>The same permanode with a second claim that does not resolve\<close>

text \<open>
  In \<open>fs_unparseable\<close> the second claim's value is not a blob ref; in
  \<open>fs_undescribed\<close> it is one, and the Describe for it fails.
\<close>

definition fs_unparseable :: CamliFileSystem where
  "fs_unparseable =
     \<lparr>Describe = describe_history,
      GetClaims = (\<lambda>q. Inr [\<lparr>Value = ''sha1-a'', Date = 1577836800\<rparr>,
                             \<lparr>Value = ''garbage'', Date = 1590969600\<rparr>]),
      GetPermanodesWithAttr = (\<lambda>req. Inr []),
      NewFileReader = (\<lambda>r. Inr [])\<rparr>"

definition fs_undescribed :: CamliFileSystem where
  "fs_undescribed =
     \<lparr>Describe = describe_history,
      GetClaims = (\<lambda>q. Inr [\<lparr>Value = ''sha1-a'', Date = 1577836800\<rparr>,
                             \<lparr>Value = ''sha1-c'', Date = 1590969600\<rparr>]),
      GetPermanodesWithAttr = (\<lambda>req. Inr []),
      NewFileReader = (\<lambda>r. Inr [])\<rparr>"

definition dirF_partial :: roFileLikeDir where
  "dirF_partial =
     RoFileLikeDir (MkRef ''sha1-f00'') ''notes.txt'' False []
       (Some [(''2020-01-01T00:00:00Z'', FileVersion version_t1)]) None"

definition calls_first_claim :: "call list" where
  "calls_first_claim =
     [CallGetClaims (MkRef ''sha1-f00'') ''camliContent'',
      CallDescribe \<lparr>req_BlobRef = MkRef ''sha1-a'', req_BlobRefs = [], req_Depth = 1,
                     req_At = 1577836800\<rparr>]"

subsection \<open>A directory permanode with a subdirectory and a file\<close>

text \<open>
  \<open>camliPath:a\<close> points to a directory permanode and \<open>camliPath:b\<close> to a permanode
  whose camliContent is a file. \<open>fs_down\<close> is a search client whose every query fails.
\<close>

definition dirV0 :: roDirV where
  "dirV0 = newRODirV (MkRef ''sha1-d00'') ''docs''"

definition describe_docs :: DescribeRequest where
  "describe_docs =
     \<lparr>req_BlobRef = MkRef ''sha1-d00'', req_BlobRefs = [], req_Depth = 3, req_At = 0\<rparr>"

definition fs_down :: CamliFileSystem where
  "fs_down =
     \<lparr>Describe = (\<lambda>req. Inl ''connection refused''),
      GetClaims = (\<lambda>q. Inl ''connection refused''),
      GetPermanodesWithAttr = (\<lambda>req. Inl ''connection refused''),
      NewFileReader = (\<lambda>r. Inl ''connection refused'')\<rparr>"

definition meta_tree :: "(string \<times> DescribedBlob) list" where
  "meta_tree =
     [(''sha1-d00'',
       \<lparr>BlobRef = MkRef ''sha1-d00'', CamliType = ''permanode'',
        Permanode = Some \<lparr>Attr = [(''camliPath:a'', [''sha1-xx'']),
                                   (''camliPath:b'', [''sha1-yyy''])]\<rparr>,
        File = None\<rparr>),
      (''sha1-xx'',
       \<lparr>BlobRef = MkRef ''sha1-xx'', CamliType = ''permanode'',
        Permanode = Some \<lparr>Attr = [(''camliNodeType'', [''directory''])]\<rparr>,
        File = None\<rparr>),
      (''sha1-yyy'',
       \<lparr>BlobRef = MkRef ''sha1-yyy'', CamliType = ''permanode'',
        Permanode = Some \<lparr>Attr = [(''camliContent'', [''sha1-a''])]\<rparr>,
        File = None\<rparr>),
      (''sha1-a'', blobA)]"

definition fs_tree :: CamliFileSystem where
  "fs_tree =
     \<lparr>Describe = (\<lambda>req. Inr \<lparr>Meta = map_of meta_tree\<rparr>),
      GetClaims = (\<lambda>q. Inr []),
      GetPermanodesWithAttr = (\<lambda>req. Inr []),
      NewFileReader = (\<lambda>r. Inr [])\<rparr>"

definition dirV0_populated :: roDirV where
  "dirV0_populated =
     RoDirV (MkRef ''sha1-d00'') ''docs''
       (Some [(''a'', DirV (RoDirV (MkRef ''sha1-xx'') ''a'' None (Some []))),
              (''b'', FileLikeDir (RoFileLikeDir (MkRef ''sha1-yyy'') ''b'' False [] None
                                     (Some [])))])
       None"

subsection \<open>Roots directories\<close>

text \<open>
  \<open>vd_new\<close> is the roots directory as it is created. \<open>fs_empty\<close> is a store with
  no root at all, \<open>fs_photos\<close> one with the single root photos, and
  \<open>fs_describe_down\<close> the same store with a failing Describe. \<open>fs_photos_moved\<close>
  has the root photos on another permanode.
\<close>

definition vd_new :: versionsDir where
  "vd_new = \<lparr>vd_lastQuery = 0, vd_m = [], vd_children = None\<rparr>"

definition fs_empty :: CamliFileSystem where
  "fs_empty =
     \<lparr>Describe = (\<lambda>req. Inr \<lparr>Meta = map_of []\<rparr>),
      GetClaims = (\<lambda>q. Inr []),
      GetPermanodesWithAttr = (\<lambda>req. Inr []),
      NewFileReader = (\<lambda>r. Inr [])\<rparr>"

definition vd_empty :: versionsDir where
  "vd_empty = \<lparr>vd_lastQuery = 0, vd_m = [], vd_children = Some []\<rparr>"

definition meta_photos :: "(string \<times> DescribedBlob) list" where
  "meta_photos =
     [(''sha1-p1'',
       \<lparr>BlobRef = MkRef ''sha1-p1'', CamliType = ''permanode'',
        Permanode = Some \<lparr>Attr = [(''camliRoot'', [''photos''])]\<rparr>, File = None\<rparr>)]"

definition search_photos :: "WithAttrRequest \<Rightarrow> error + WithAttrItem list" where
  "search_photos req =
     (if req_Attr req = ''camliRoot'' then Inr [\<lparr>wi_Permanode = MkRef ''sha1-p1''\<rparr>] else Inr [])"

definition fs_photos :: CamliFileSystem where
  "fs_photos =
     \<lparr>Describe = (\<lambda>req. Inr \<lparr>Meta = map_of meta_photos\<rparr>),
      GetClaims = (\<lambda>q. Inr []),
      GetPermanodesWithAttr = search_photos,
      NewFileReader = (\<lambda>r. Inr [])\<rparr>"

definition fs_describe_down :: CamliFileSystem where
  "fs_describe_down =
     \<lparr>Describe = (\<lambda>req. Inl ''describe failed''),
      GetClaims = (\<lambda>q. Inr []),
      GetPermanodesWithAttr = search_photos,
      NewFileReader = (\<lambda>r. Inr [])\<rparr>"

definition describe_photos :: DescribeRequest where
  "describe_photos =
     \<lparr>req_BlobRef = ZeroRef, req_BlobRefs = [MkRef ''sha1-p1''], req_Depth = 1, req_At = 0\<rparr>"

definition vd_photos :: versionsDir where
  "vd_photos =
     \<lparr>vd_lastQuery = 100 * Minute, vd_m = [(''photos'', MkRef ''sha1-p1'')],
      vd_children = Some [(''photos'', newRODirV (MkRef ''sha1-p1'') ''photos'')]\<rparr>"

definition vd_photos_stale :: versionsDir where
  "vd_photos_stale =
     \<lparr>vd_lastQuery = 100 * Minute, vd_m = [],
      vd_children = Some [(''photos'', newRODirV (MkRef ''sha1-p1'') ''photos'')]\<rparr>"

definition meta_photos_moved :: "(string \<times> DescribedBlob) list" where
  "meta_photos_moved =
     [(''sha1-p2'',
       \<lparr>BlobRef = MkRef ''sha1-p2'', CamliType = ''permanode'',
        Permanode = Some \<lparr>Attr = [(''camliRoot'', [''photos''])]\<rparr>, File = None\<rparr>)]"

definition search_photos_moved :: "WithAttrRequest \<Rightarrow> error + WithAttrItem list" where
  "search_photos_moved req =
     (if req_Attr req = ''camliRoot'' then Inr [\<lparr>wi_Permanode = MkRef ''sha1-p2''\<rparr>] else Inr [])"

definition fs_photos_moved :: CamliFileSystem where
  "fs_photos_moved =
     \<lparr>Describe = (\<lambda>req. Inr \<lparr>Meta = map_of meta_photos_moved\<rparr>),
      GetClaims = (\<lambda>q. Inr []),
      GetPermanodesWithAttr = search_photos_moved,
      NewFileReader = (\<lambda>r. Inr [])\<rparr>"

definition describe_photos_moved :: DescribeRequest where
  "describe_photos_moved =
     \<lparr>req_BlobRef = ZeroRef, req_BlobRefs = [MkRef ''sha1-p2''], req_Depth = 1, req_At = 0\<rparr>"

definition vd_photos_moved :: versionsDir where
  "vd_photos_moved =
     \<lparr>vd_lastQuery = 104 * Minute, vd_m = [(''photos'', MkRef ''sha1-p2'')],
      vd_children = Some [(''photos'', newRODirV (MkRef ''sha1-p1'') ''photos'')]\<rparr>"

text \<open>
  A store with the root photos and the import root twitter:bob/feed, and one where a
  root is literally named importer-x beside the import root x.
\<close>

definition meta_importer :: "(string \<times> DescribedBlob) list" where
  "meta_importer =
     [(''sha1-p1'',
       \<lparr>BlobRef = MkRef ''sha1-p1'', CamliType = ''permanode'',
        Permanode = Some \<lparr>Attr = [(''camliRoot'', [''photos''])]\<rparr>, File = None\<rparr>),
      (''sha1-i1'',
       \<lparr>BlobRef = MkRef ''sha1-i1'', CamliType = ''permanode'',
        Permanode = Some \<lparr>Attr = [(''camliImportRoot'', [''twitter:bob/feed''])]\<rparr>,
        File = None\<rparr>)]"

definition search_importer :: "WithAttrRequest \<Rightarrow> error + WithAttrItem list" where
  "search_importer req =
     (if req_Attr req = ''camliRoot'' then Inr [\<lparr>wi_Permanode = MkRef ''sha1-p1''\<rparr>]
      else Inr [\<lparr>wi_Permanode = MkRef ''sha1-i1''\<rparr>])"

definition fs_importer :: CamliFileSystem where
  "fs_importer =
     \<lparr>Describe = (\<lambda>req. Inr \<lparr>Meta = map_of meta_importer\<rparr>),
      GetClaims = (\<lambda>q. Inr []),
      GetPermanodesWithAttr = search_importer,
      NewFileReader = (\<lambda>r. Inr [])\<rparr>"

definition describe_importer :: DescribeRequest where
  "describe_importer =
     \<lparr>req_BlobRef = ZeroRef, req_BlobRefs = [MkRef ''sha1-p1'', MkRef ''sha1-i1''],
      req_Depth = 1, req_At = 0\<rparr>"

definition vd_importer :: versionsDir where
  "vd_importer =
     \<lparr>vd_lastQuery = 100 * Minute,
      vd_m = [(''photos'', MkRef ''sha1-p1''), (''importer-twitter-bob-feed'', MkRef ''sha1-i1'')],
      vd_children =
        Some [(''photos'', newRODirV (MkRef ''sha1-p1'') ''photos''),
              (''importer-twitter-bob-feed'',
               RoDirV (MkRef ''sha1-i1'') ''importer-twitter-bob-feed'' (Some []) None)]\<rparr>"

definition vd_importer_refreshed :: versionsDir where
  "vd_importer_refreshed =
     \<lparr>vd_lastQuery = 102 * Minute,
      vd_m = [(''photos'', MkRef ''sha1-p1''), (''importer-twitter-bob-feed'', MkRef ''sha1-i1'')],
      vd_children = Some [(''photos'', newRODirV (MkRef ''sha1-p1'') ''photos'')]\<rparr>"

definition meta_collision :: "(string \<times> DescribedBlob) list" where
  "meta_collision =
     [(''sha1-c1'',
       \<lparr>BlobRef = MkRef ''sha1-c1'', CamliType = ''permanode'',
        Permanode = Some \<lparr>Attr = [(''camliRoot'', [''importer-x''])]\<rparr>, File = None\<rparr>),
      (''sha1-i2'',
       \<lparr>BlobRef = MkRef ''sha1-i2'', CamliType = ''permanode'',
        Permanode = Some \<lparr>Attr = [(''camliImportRoot'', [''x''])]\<rparr>, File = None\<rparr>)]"

definition search_collision :: "WithAttrRequest \<Rightarrow> error + WithAttrItem list" where
  "search_collision req =
     (if req_Attr req = ''camliRoot'' then Inr [\<lparr>wi_Permanode = MkRef ''sha1-c1''\<rparr>]
      else Inr [\<lparr>wi_Permanode = MkRef ''sha1-i2''\<rparr>])"

definition fs_collision :: CamliFileSystem where
  "fs_collision =
     \<lparr>Describe = (\<lambda>req. Inr \<lparr>Meta = map_of meta_collision\<rparr>),
      GetClaims = (\<lambda>q. Inr []),
      GetPermanodesWithAttr = search_collision,
      NewFileReader = (\<lambda>r. Inr [])\<rparr>"

definition describe_collision :: DescribeRequest where
  "describe_collision =
     \<lparr>req_BlobRef = ZeroRef, req_BlobRefs = [MkRef ''sha1-c1'', MkRef ''sha1-i2''],
      req_Depth = 1, req_At = 0\<rparr>"

definition vd_collision :: versionsDir where
  "vd_collision =
     \<lparr>vd_lastQuery = 100 * Minute,
      vd_m = [(''importer-x'', MkRef ''sha1-i2'')],
      vd_children =
        Some [(''importer-x'', RoDirV (MkRef ''sha1-i2'') ''importer-x'' (Some []) None)]\<rparr>"

definition vd_collision_refreshed :: versionsDir where
  "vd_collision_refreshed =
     \<lparr>vd_lastQuery = 102 * Minute,
      vd_m = [(''importer-x'', MkRef ''sha1-i2'')],
      vd_children =
        Some [(''importer-x'', RoDirV (MkRef ''sha1-i2'') ''importer-x'' (Some []) None)]\<rparr>"

section \<open>Predicates used in the statements\<close>

text \<open>
  The node (or the children map) that an operation leaves behind, whether it returned
  or panicked.
\<close>

definition state_after :: "(panic \<times> 's) + ('r \<times> 's \<times> call list) \<Rightarrow> 's" where
  "state_after r = (case r of Inl (pa, s) \<Rightarrow> s | Inr (res, s, calls) \<Rightarrow> s)"

text \<open>
  A child as the loop of roFileLikeDir.populate builds it: a roFileVersion that carries
  the directory's permanode and its own entry name, with no timestamps set.
\<close>

definition built_by_populate :: "blob_Ref \<Rightarrow> string \<times> roFileOrDir \<Rightarrow> bool" where
  "built_by_populate permanode e =
     (case snd e of
        FileVersion v \<Rightarrow>
          fv_permanode v = permanode \<and> fv_name v = fst e \<and> fv_mtime v = 0 \<and> fv_atime v = 0
          \<and> \<not> fv_symLink v
      | DirV v \<Rightarrow> False
      | FileLikeDir v \<Rightarrow> False)"

text \<open>
  The two search requests of condRefresh and the calls they make; a refresh whose
  search fails, and one whose searches find something that Describe then fails on; the
  entry name condRefresh gives an import root.
\<close>

definition rootReq :: WithAttrRequest where
  "rootReq = \<lparr>req_N = 100, req_Attr = ''camliRoot''\<rparr>"

definition impReq :: WithAttrRequest where
  "impReq = \<lparr>req_N = 100, req_Attr = ''camliImportRoot''\<rparr>"

definition searches :: "call list" where
  "searches = [CallGetPermanodesWithAttr rootReq, CallGetPermanodesWithAttr impReq]"

definition search_fails :: "CamliFileSystem \<Rightarrow> bool" where
  "search_fails fs =
     (isl (GetPermanodesWithAttr fs rootReq) \<or> isl (GetPermanodesWithAttr fs impReq))"

definition describe_fails :: "CamliFileSystem \<Rightarrow> bool" where
  "describe_fails fs =
     (case GetPermanodesWithAttr fs rootReq of
        Inl err \<Rightarrow> False
      | Inr rootRes \<Rightarrow>
          (case GetPermanodesWithAttr fs impReq of
             Inl err \<Rightarrow> False
           | Inr impRes \<Rightarrow>
               req_BlobRefs (condRefresh_request rootRes impRes) \<noteq> []
               \<and> isl (Describe fs (condRefresh_request rootRes impRes))))"

definition importer_name :: "string \<Rightarrow> string" where
  "importer_name name =
     ''importer-'' @ Replace (Replace name (CHR '':'') (CHR ''-'')) (CHR ''/'') (CHR ''-'')"

section \<open>roFileLikeDir: the versions of a file\<close>

lemma populate_history:
  "roFileLikeDir_populate pkg0 fs_history dirF = Inr (None, dirF_populated, calls_history)"
  by (simp add: roFileLikeDir_populate_def dirF_def newROFileLikeDir_def fs_history_def
      describe_history_def pkg0_def blobA_def blobB_def fl_set_children_def
      dirF_populated_def version_t1_def version_t2_def calls_history_def Let_def)

lemma built_by_populate_update:
  "list_all (built_by_populate pn) ch \<Longrightarrow> built_by_populate pn (name, c) \<Longrightarrow>
   list_all (built_by_populate pn) (AList.update name c ch)"
  by (induction ch) auto

lemma state_after_more_calls:
  "state_after (case r of Inl pa \<Rightarrow> Inl pa
                | Inr (err, children, calls) \<Rightarrow> Inr (err, children, f calls)) = state_after r"
  by (simp add: state_after_def split: sum.splits prod.splits)

lemma populate_claims_built:
  "list_all (built_by_populate pn) ch \<Longrightarrow>
   list_all (built_by_populate pn) (state_after (roFileLikeDir_populate_claims p fs pn cls ch))"
proof (induction cls arbitrary: ch)
  case Nil
  then show ?case by (simp add: state_after_def)
next
  case (Cons cl cls)
  show ?case
  proof (cases "Parse p (Value cl)")
    case None
    with Cons.prems show ?thesis by (simp add: state_after_def)
  next
    case (Some r)
    let ?req = "\<lparr>req_BlobRef = r, req_BlobRefs = [], req_Depth = 1, req_At = Date cl\<rparr>"
    show ?thesis
    proof (cases "Describe fs ?req")
      case (Inl e)
      with Some Cons.prems show ?thesis by (simp add: state_after_def)
    next
      case (Inr res)
      show ?thesis
      proof (cases "Meta res (Value cl)")
        case None
        with Some Inr Cons.prems show ?thesis by (simp add: state_after_def)
      next
        case db: (Some db)
        show ?thesis
        proof (cases "File db")
          case None
          with Some Inr db Cons.prems show ?thesis by (simp add: state_after_def)
        next
          case f: (Some f)
          let ?name = "Date_String p (Date cl)"
          let ?v = "\<lparr>fv_permanode = pn, fv_name = ?name, fv_symLink = False, fv_target = [],
                     fv_content = BlobRef db, fv_size = File_Size f, fv_mtime = 0, fv_atime = 0,
                     fv_xattrs = None\<rparr>"
          have "built_by_populate pn (?name, FileVersion ?v)"
            by (simp add: built_by_populate_def)
          with Cons.prems have "list_all (built_by_populate pn)
              (AList.update ?name (FileVersion ?v) ch)"
            by (rule built_by_populate_update)
          then have "list_all (built_by_populate pn)
              (state_after (roFileLikeDir_populate_claims p fs pn cls
                 (AList.update ?name (FileVersion ?v) ch)))"
            by (rule Cons.IH)
          with Some Inr db f show ?thesis
            by (simp add: Let_def state_after_more_calls)
        qed
      qed
    qed
  qed
qed

lemma populate_built:
  assumes "fl_children n = None"
  shows "fl_permanode (state_after (roFileLikeDir_populate p fs n)) = fl_permanode n"
    and "list_all (built_by_populate (fl_permanode n))
           (case fl_children (state_after (roFileLikeDir_populate p fs n)) of
              None \<Rightarrow> [] | Some ch \<Rightarrow> ch)"
proof -
  show "fl_permanode (state_after (roFileLikeDir_populate p fs n)) = fl_permanode n"
    using assms
    by (simp add: roFileLikeDir_populate_def fl_set_children_def state_after_def
        split: sum.splits prod.splits)
  show "list_all (built_by_populate (fl_permanode n))
           (case fl_children (state_after (roFileLikeDir_populate p fs n)) of
              None \<Rightarrow> [] | Some ch \<Rightarrow> ch)"
  proof (cases "GetClaims fs (fl_permanode n, ''camliContent'')")
    case (Inl e)
    with assms show ?thesis
      by (simp add: roFileLikeDir_populate_def state_after_def)
  next
    case (Inr claims)
    have "list_all (built_by_populate (fl_permanode n)) []" by simp
    then have "list_all (built_by_populate (fl_permanode n))
        (state_after (roFileLikeDir_populate_claims p fs (fl_permanode n) claims []))"
      by (rule populate_claims_built)
    with assms Inr show ?thesis
      by (simp add: roFileLikeDir_populate_def fl_set_children_def state_after_def
          split: sum.splits prod.splits)
  qed
qed

lemma built_by_populate_lookup:
  assumes "list_all (built_by_populate pn) ch" and "map_of ch name = Some c"
  shows "built_by_populate pn (name, c)"
proof -
  from assms(2) have "(name, c) \<in> set ch" by (rule map_of_SomeD)
  with assms(1) show ?thesis by (simp add: list_all_iff)
qed

lemma ReadDir_ents_built:
  "list_all (built_by_populate pn) ch \<Longrightarrow>
   list_all (\<lambda>e. Dirent_Inode e = Sum64 p pn) (map (ReadDir_dirent p) ch)"
proof (induction ch)
  case Nil
  then show ?case by simp
next
  case (Cons e ch)
  obtain name c where e: "e = (name, c)" by (cases e)
  from Cons.prems e obtain v where "c = FileVersion v" "fv_permanode v = pn"
    by (cases c) (auto simp: built_by_populate_def)
  with Cons e show ?case by simp
qed

text \<open>
  C9: every roFileVersion that roFileLikeDir.populate creates stores the directory's own
  permanode (not the version's content ref). So after populate has run on a directory
  whose children were unset, however it ended, the directory's inode is the hash of its
  permanode, every child that a lookup in the children map finds is a roFileVersion
  whose Attr reports that same inode, every entry that ReadDir builds from the children
  carries it too, and ReadDir on the populated directory returns exactly those entries
  without a query.
\<close>

theorem roFileLikeDir_versions_share_inode:
  assumes "fl_children n = None"
      and "n' = state_after (roFileLikeDir_populate p fs n)"
  shows "Inode (roFileLikeDir_Attr p n') = Sum64 p (fl_permanode n)
       \<and> (\<forall>name c. children_get (fl_children n') name = Some c \<longrightarrow>
            (\<exists>v. c = FileVersion v \<and> fv_permanode v = fl_permanode n
                 \<and> Inode (roFileVersion_Attr p v) = Inode (roFileLikeDir_Attr p n')))
       \<and> list_all (\<lambda>e. Dirent_Inode e = Inode (roFileLikeDir_Attr p n'))
            (ReadDir_ents p (fl_children n'))
       \<and> (\<forall>fs2. fl_children n' \<noteq> None \<longrightarrow>
            roFileLikeDir_ReadDir p fs2 n' = Inr (Inr (ReadDir_ents p (fl_children n')), n', []))"
proof -
  let ?ch = "case fl_children n' of None \<Rightarrow> [] | Some ch \<Rightarrow> ch"
  from assms have pn: "fl_permanode n' = fl_permanode n"
    by (simp add: populate_built(1))
  from assms have built: "list_all (built_by_populate (fl_permanode n)) ?ch"
    by (simp add: populate_built(2))
  from pn have ino: "Inode (roFileLikeDir_Attr p n') = Sum64 p (fl_permanode n)"
    by (simp add: roFileLikeDir_Attr_def)
  have look: "\<exists>v. c = FileVersion v \<and> fv_permanode v = fl_permanode n
                 \<and> Inode (roFileVersion_Attr p v) = Inode (roFileLikeDir_Attr p n')"
    if "children_get (fl_children n') name = Some c" for name c
  proof -
    from that have "map_of ?ch name = Some c"
      by (simp add: children_get_def split: option.splits)
    with built have "built_by_populate (fl_permanode n) (name, c)"
      by (rule built_by_populate_lookup)
    then obtain v where "c = FileVersion v" "fv_permanode v = fl_permanode n"
      by (cases c) (auto simp: built_by_populate_def)
    with ino show ?thesis by (simp add: roFileVersion_Attr_def Let_def)
  qed
  from built have "list_all (\<lambda>e. Dirent_Inode e = Sum64 p (fl_permanode n))
                     (map (ReadDir_dirent p) ?ch)"
    by (rule ReadDir_ents_built)
  then have ents: "list_all (\<lambda>e. Dirent_Inode e = Inode (roFileLikeDir_Attr p n'))
                     (ReadDir_ents p (fl_children n'))"
    by (simp add: ino ReadDir_ents_def split: option.splits)
  have again: "roFileLikeDir_ReadDir p fs2 n' = Inr (Inr (ReadDir_ents p (fl_children n')), n', [])"
    if "fl_children n' \<noteq> None" for fs2
    using that by (auto simp: roFileLikeDir_ReadDir_def roFileLikeDir_populate_def)
  from ino look ents again show ?thesis by blast
qed

theorem roFileLikeDir_versions_share_inode_witness:
  "fl_children dirF = None
   \<and> roFileLikeDir_populate pkg0 fs_history dirF = Inr (None, dirF_populated, calls_history)
   \<and> Inode (roFileLikeDir_Attr pkg0 dirF_populated) = 8
   \<and> Inode (roFileVersion_Attr pkg0 version_t1) = 8
   \<and> Inode (roFileVersion_Attr pkg0 version_t2) = 8
   \<and> roFileLikeDir_ReadDir pkg0 fs_history dirF_populated =
       Inr (Inr [\<lparr>Dirent_Name = ''2020-01-01T00:00:00Z'', Dirent_Inode = 8\<rparr>,
                 \<lparr>Dirent_Name = ''2020-06-01T00:00:00Z'', Dirent_Inode = 8\<rparr>],
            dirF_populated, [])"
proof -
  have h1: "fl_children dirF = None"
    by (simp add: dirF_def newROFileLikeDir_def)
  note h2 = populate_history
  have ents: "ReadDir_ents pkg0 (fl_children dirF_populated) =
      [\<lparr>Dirent_Name = ''2020-01-01T00:00:00Z'', Dirent_Inode = 8\<rparr>,
       \<lparr>Dirent_Name = ''2020-06-01T00:00:00Z'', Dirent_Inode = 8\<rparr>]"
    by (simp add: ReadDir_ents_def dirF_populated_def version_t1_def version_t2_def pkg0_def)
  have some: "fl_children dirF_populated \<noteq> None"
    by (simp add: dirF_populated_def)
  have v1: "Inode (roFileVersion_Attr pkg0 version_t1) = 8"
    by (simp add: roFileVersion_Attr_def Let_def version_t1_def pkg0_def)
  have v2: "Inode (roFileVersion_Attr pkg0 version_t2) = 8"
    by (simp add: roFileVersion_Attr_def Let_def version_t2_def pkg0_def)
  from h2 have h2': "dirF_populated = state_after (roFileLikeDir_populate pkg0 fs_history dirF)"
    by (simp add: state_after_def)
  from roFileLikeDir_versions_share_inode [OF h1 h2']
  have "Inode (roFileLikeDir_Attr pkg0 dirF_populated) = Sum64 pkg0 (fl_permanode dirF)"
    and "roFileLikeDir_ReadDir pkg0 fs_history dirF_populated =
           Inr (Inr (ReadDir_ents pkg0 (fl_children dirF_populated)), dirF_populated, [])"
    using some by blast+
  then show ?thesis
    using h1 h2 ents v1 v2 by (simp add: dirF_def newROFileLikeDir_def pkg0_def)
qed

text \<open>
  C1, at a claim list whose second claim does not resolve. The claim says that populate
  then fails as a whole, leaves the children map unset and queries again on the next
  call. With an unparseable second value, the first ReadDir does return EIO, but the
  node keeps the children map with the first version in it, so the next ReadDir and
  Lookup send no query and show that one entry. When instead the Describe of the second
  claim fails, the first ReadDir itself succeeds and lists the one entry.
\<close>

theorem roFileLikeDir_populate_partial_children:
  "roFileLikeDir_ReadDir pkg0 fs_unparseable dirF = Inr (Inl EIO, dirF_partial, calls_first_claim)
   \<and> roFileLikeDir_ReadDir pkg0 fs_unparseable dirF_partial =
       Inr (Inr [\<lparr>Dirent_Name = ''2020-01-01T00:00:00Z'', Dirent_Inode = 8\<rparr>], dirF_partial, [])
   \<and> roFileLikeDir_Lookup pkg0 fs_unparseable dirF_partial ''2020-01-01T00:00:00Z'' =
       Inr (Inr (FileVersion version_t1), dirF_partial, [])
   \<and> roFileLikeDir_ReadDir pkg0 fs_undescribed dirF =
       Inr (Inr [\<lparr>Dirent_Name = ''2020-01-01T00:00:00Z'', Dirent_Inode = 8\<rparr>], dirF_partial,
            calls_first_claim @
            [CallDescribe \<lparr>req_BlobRef = MkRef ''sha1-c'', req_BlobRefs = [], req_Depth = 1,
                            req_At = 1590969600\<rparr>])"
  by (simp add: roFileLikeDir_ReadDir_def roFileLikeDir_Lookup_def roFileLikeDir_populate_def
      fs_unparseable_def fs_undescribed_def dirF_partial_def calls_first_claim_def dirF_def
      newROFileLikeDir_def describe_history_def pkg0_def blobA_def fl_set_children_def
      version_t1_def Let_def ReadDir_ents_def children_get_def)

section \<open>roFileVersion: attributes\<close>

text \<open>
  C8 as stated fails on a version built by roFileLikeDir.populate: the claim of
  2020-01-01 (instant 1577836800) yields a node whose Attr reports the package's start
  time 1700000000 as modification time, not the claim's timestamp.
\<close>

theorem roFileVersion_Attr_mtime_counterexample:
  "roFileLikeDir_Lookup pkg0 fs_history dirF ''2020-01-01T00:00:00Z'' =
     Inr (Inr (FileVersion version_t1), dirF_populated, calls_history)
   \<and> Mtime (roFileVersion_Attr pkg0 version_t1) = 1700000000
   \<and> Mtime (roFileVersion_Attr pkg0 version_t1) \<noteq> 1577836800"
proof -
  have "roFileLikeDir_Lookup pkg0 fs_history dirF ''2020-01-01T00:00:00Z'' =
     Inr (Inr (FileVersion version_t1), dirF_populated, calls_history)"
    by (simp add: roFileLikeDir_Lookup_def populate_history children_get_def
        dirF_populated_def)
  moreover have "Mtime (roFileVersion_Attr pkg0 version_t1) = 1700000000"
    by (simp add: roFileVersion_Attr_def roFileVersion_modTime_def IsZero_def
        Let_def version_t1_def pkg0_def)
  ultimately show ?thesis by simp
qed

text \<open>
  C8, amended: for every roFileVersion, Attr returns mode 0400, with the symlink bit
  added when symLink is set, and never a write bit (0222); the size is the stored size
  and the block count is size/512 + 1 for a positive size and 0 otherwise; the
  modification time is the node's stored mtime when that is set and the package's start
  time otherwise; the access time is the stored atime when set and the modification
  time otherwise. A node created by roFileLikeDir.populate has neither time set (the
  claim's timestamp only names the entry), so both of its times are the package's start
  time.
\<close>

theorem roFileVersion_Attr_fields:
  "Mode (roFileVersion_Attr p n) = (if fv_symLink n then 256 OR ModeSymlink else 256)
   \<and> Mode (roFileVersion_Attr p n) AND 146 = 0
   \<and> Size (roFileVersion_Attr p n) = fv_size n
   \<and> Blocks (roFileVersion_Attr p n) = (if 0 <s fv_size n then fv_size n div 512 + 1 else 0)
   \<and> Mtime (roFileVersion_Attr p n) = (if fv_mtime n = 0 then serverStart p else fv_mtime n)
   \<and> Atime (roFileVersion_Attr p n) =
       (if fv_atime n = 0 then Mtime (roFileVersion_Attr p n) else fv_atime n)
   \<and> (fl_children d = None
        \<and> children_get (fl_children (state_after (roFileLikeDir_populate p fs d))) name = Some c
        \<longrightarrow>
       (\<exists>v. c = FileVersion v \<and> fv_mtime v = 0 \<and> fv_atime v = 0
            \<and> Mtime (roFileVersion_Attr p v) = serverStart p
            \<and> Atime (roFileVersion_Attr p v) = serverStart p))"
proof -
  have mode: "Mode (roFileVersion_Attr p n) = (if fv_symLink n then 256 OR ModeSymlink else 256)"
    by (simp add: roFileVersion_Attr_def Let_def)
  have ro: "Mode (roFileVersion_Attr p n) AND 146 = 0"
    by (simp add: mode ModeSymlink_def)
  have sz: "Size (roFileVersion_Attr p n) = fv_size n"
    by (simp add: roFileVersion_Attr_def Let_def)
  have bl: "Blocks (roFileVersion_Attr p n) = (if 0 <s fv_size n then fv_size n div 512 + 1 else 0)"
    by (simp add: roFileVersion_Attr_def Let_def)
  have mt: "Mtime (roFileVersion_Attr p x) = (if fv_mtime x = 0 then serverStart p else fv_mtime x)"
    for x
    by (simp add: roFileVersion_Attr_def roFileVersion_modTime_def IsZero_def Let_def)
  have at: "Atime (roFileVersion_Attr p x) =
       (if fv_atime x = 0 then Mtime (roFileVersion_Attr p x) else fv_atime x)" for x
    by (simp add: roFileVersion_Attr_def roFileVersion_accessTime_def
        roFileVersion_modTime_def IsZero_def Let_def)
  have pop: "\<exists>v. c = FileVersion v \<and> fv_mtime v = 0 \<and> fv_atime v = 0
            \<and> Mtime (roFileVersion_Attr p v) = serverStart p
            \<and> Atime (roFileVersion_Attr p v) = serverStart p"
    if h: "fl_children d = None"
      and c: "children_get (fl_children (state_after (roFileLikeDir_populate p fs d))) name = Some c"
  proof -
    let ?ch = "case fl_children (state_after (roFileLikeDir_populate p fs d)) of
                 None \<Rightarrow> [] | Some ch \<Rightarrow> ch"
    from h have "list_all (built_by_populate (fl_permanode d)) ?ch"
      by (rule populate_built(2))
    moreover from c have "map_of ?ch name = Some c"
      by (simp add: children_get_def split: option.splits)
    ultimately have "built_by_populate (fl_permanode d) (name, c)"
      by (rule built_by_populate_lookup)
    then obtain v where "c = FileVersion v" "fv_mtime v = 0" "fv_atime v = 0"
      by (cases c) (auto simp: built_by_populate_def)
    then show ?thesis by (simp add: mt at)
  qed
  from mode ro sz bl mt [of n] at [of n] pop show ?thesis by blast
qed

theorem roFileVersion_Attr_fields_witness:
  "fl_children dirF = None
   \<and> roFileLikeDir_populate pkg0 fs_history dirF = Inr (None, dirF_populated, calls_history)
   \<and> children_get (fl_children dirF_populated) ''2020-06-01T00:00:00Z'' =
       Some (FileVersion version_t2)
   \<and> Mtime (roFileVersion_Attr pkg0 version_t2) = serverStart pkg0
   \<and> Size (roFileVersion_Attr pkg0 version_t2) = 20
   \<and> Blocks (roFileVersion_Attr pkg0 version_t2) = 1
   \<and> Mode (roFileVersion_Attr pkg0 version_t2) = 256"
proof -
  have h1: "fl_children dirF = None"
    by (simp add: dirF_def newROFileLikeDir_def)
  have h3: "children_get (fl_children dirF_populated) ''2020-06-01T00:00:00Z'' =
       Some (FileVersion version_t2)"
    by (simp add: children_get_def dirF_populated_def)
  have sl: "\<not> fv_symLink version_t2" and sz: "fv_size version_t2 = 20"
    by (simp_all add: version_t2_def)
  have after: "state_after (roFileLikeDir_populate pkg0 fs_history dirF) = dirF_populated"
    by (simp add: populate_history state_after_def)
  from roFileVersion_Attr_fields [of pkg0 version_t2 dirF fs_history
      "''2020-06-01T00:00:00Z''" "FileVersion version_t2"]
  show ?thesis
    using h1 populate_history h3 sl sz after by (simp add: word_sless_alt)
qed

section \<open>roDirV: the entries of a permanode\<close>

text \<open>
  C2, at a search client whose Describe fails. The claim says that ReadDir and Lookup
  then return EIO without creating the children map. The map is indeed not created and
  the query is sent again on every call, but populate logs the error and returns nil:
  ReadDir returns an empty listing and Lookup returns ENOENT, both without an error of
  their own.
\<close>

theorem roDirV_Describe_failure_not_EIO:
  "roDirV_ReadDir pkg0 fs_down dirV0 = Inr (Inr [], dirV0, [CallDescribe describe_docs])
   \<and> roDirV_Lookup pkg0 fs_down dirV0 ''a'' = Inr (Inl ENOENT, dirV0, [CallDescribe describe_docs])"
  by (simp add: roDirV_ReadDir_def roDirV_Lookup_def roDirV_populate_def fs_down_def dirV0_def
      newRODirV_def describe_docs_def Let_def ReadDir_ents_def children_get_def)

lemma populate_tree:
  "roDirV_populate pkg0 fs_tree dirV0 = Inr (None, dirV0_populated, [CallDescribe describe_docs])"
  by (simp add: roDirV_populate_def roDirV_populate_attr_def fs_tree_def meta_tree_def
      dirV0_def newRODirV_def describe_docs_def dirV0_populated_def dv_set_children_def
      Values_Get_def ParseOrZero_def blobA_def pkg0_def Let_def)

text \<open>
  C3, at a permanode with \<open>camliPath:a\<close> to a directory and \<open>camliPath:b\<close> to a
  file. The claim says that every entry of ReadDir carries the hash of the child's own
  ref. The entry of the subdirectory does (7); the entry of the file, a roFileLikeDir,
  falls to the default case of the type switch and carries inode 0, while the hash of
  its ref, which the child's own Attr reports, is 8.
\<close>

theorem roDirV_ReadDir_file_child_inode_zero:
  "roDirV_ReadDir pkg0 fs_tree dirV0 =
     Inr (Inr [\<lparr>Dirent_Name = ''a'', Dirent_Inode = 7\<rparr>,
               \<lparr>Dirent_Name = ''b'', Dirent_Inode = 0\<rparr>],
          dirV0_populated, [CallDescribe describe_docs])
   \<and> Sum64 pkg0 (MkRef ''sha1-xx'') = 7
   \<and> Sum64 pkg0 (MkRef ''sha1-yyy'') = 8
   \<and> roDirV_Lookup pkg0 fs_tree dirV0_populated ''b'' =
       Inr (Inr (FileLikeDir (RoFileLikeDir (MkRef ''sha1-yyy'') ''b'' False [] None (Some []))),
            dirV0_populated, [])
   \<and> Inode (roFileLikeDir_Attr pkg0
               (RoFileLikeDir (MkRef ''sha1-yyy'') ''b'' False [] None (Some []))) = 8"
proof -
  have "roDirV_ReadDir pkg0 fs_tree dirV0 =
     Inr (Inr (ReadDir_ents pkg0 (dv_children dirV0_populated)),
          dirV0_populated, [CallDescribe describe_docs])"
    by (simp add: roDirV_ReadDir_def populate_tree)
  moreover have "ReadDir_ents pkg0 (dv_children dirV0_populated) =
      [\<lparr>Dirent_Name = ''a'', Dirent_Inode = 7\<rparr>, \<lparr>Dirent_Name = ''b'', Dirent_Inode = 0\<rparr>]"
    by (simp add: ReadDir_ents_def dirV0_populated_def pkg0_def)
  moreover have "Sum64 pkg0 (MkRef ''sha1-xx'') = 7" "Sum64 pkg0 (MkRef ''sha1-yyy'') = 8"
    by (simp_all add: pkg0_def)
  moreover have "roDirV_Lookup pkg0 fs_tree dirV0_populated ''b'' =
       Inr (Inr (FileLikeDir (RoFileLikeDir (MkRef ''sha1-yyy'') ''b'' False [] None (Some []))),
            dirV0_populated, [])"
    by (simp add: roDirV_Lookup_def roDirV_populate_def dirV0_populated_def children_get_def)
  moreover have "Inode (roFileLikeDir_Attr pkg0
               (RoFileLikeDir (MkRef ''sha1-yyy'') ''b'' False [] None (Some []))) = 8"
    by (simp add: roFileLikeDir_Attr_def pkg0_def)
  ultimately show ?thesis by simp
qed

section \<open>versionsDir: the roots directory\<close>

lemmas vd_simps = condRefresh_def versionsDir_ReadDir_def versionsDir_Lookup_def After_def
  versionsRefreshTime_def Minute_def condRefresh_request_def Let_def
  rootReq_def impReq_def searches_def

lemma condRefresh_fresh:
  "After (vd_lastQuery n) (now - versionsRefreshTime) \<Longrightarrow> condRefresh fs now now' n = (None, n, [])"
  by (simp add: condRefresh_def)

lemma condRefresh_due_searches:
  "\<not> After (vd_lastQuery n) (now - versionsRefreshTime) \<Longrightarrow>
   take 2 (snd (snd (condRefresh fs now now' n))) = searches"
  by (simp add: condRefresh_def searches_def rootReq_def impReq_def Let_def
      split: sum.splits prod.splits)

lemma condRefresh_search_fails:
  "\<not> After (vd_lastQuery n) (now - versionsRefreshTime) \<Longrightarrow> search_fails fs \<Longrightarrow>
   condRefresh fs now now' n = (Some EIO, n, searches)"
  by (auto simp: condRefresh_def search_fails_def searches_def rootReq_def impReq_def Let_def
      isl_def split: sum.splits)

lemma condRefresh_describe_fails:
  assumes "\<not> After (vd_lastQuery n) (now - versionsRefreshTime)" and "describe_fails fs"
  shows "\<exists>calls. condRefresh fs now now' n =
           (Some EIO,
            n\<lparr>vd_m := [], vd_children := Some (case vd_children n of None \<Rightarrow> [] | Some ch \<Rightarrow> ch)\<rparr>,
            calls)"
  using assms
  by (auto simp: condRefresh_def describe_fails_def rootReq_def impReq_def Let_def isl_def
      split: sum.splits)

lemma condRefresh_completes:
  assumes due: "\<not> After (vd_lastQuery n) (now - versionsRefreshTime)"
      and roots: "GetPermanodesWithAttr fs rootReq = Inr rootRes"
      and imps: "GetPermanodesWithAttr fs impReq = Inr impRes"
      and refs: "req_BlobRefs (condRefresh_request rootRes impRes) \<noteq> []"
      and desc: "Describe fs (condRefresh_request rootRes impRes) = Inr dres"
      and cr: "condRefresh_roots dres rootRes ([], []) = (currentRoots, m1)"
  shows "condRefresh fs now now' n =
           (None,
            n\<lparr>vd_m := condRefresh_importers dres impRes m1,
              vd_children := Some (AList.restrict (set currentRoots)
                                    (case vd_children n of None \<Rightarrow> [] | Some ch \<Rightarrow> ch)),
              vd_lastQuery := now'\<rparr>,
            searches @ [CallDescribe (condRefresh_request rootRes impRes)])"
  using assms
  by (simp add: condRefresh_def rootReq_def impReq_def searches_def Let_def)

lemma currentRoots_literal:
  assumes "condRefresh_roots dres rootRes acc = (cr, m1)" and "x \<in> set cr"
  shows "x \<in> set (fst acc) \<or>
         (\<exists>wi \<in> set rootRes. \<exists>db dp. Meta dres (Ref_String (wi_Permanode wi)) = Some db
             \<and> Permanode db = Some dp \<and> x = Values_Get (Attr dp) ''camliRoot'')"
  using assms
proof (induction rootRes arbitrary: acc)
  case Nil
  then show ?case by auto
next
  case (Cons wi wis)
  obtain cr0 m0 where acc: "acc = (cr0, m0)" by (cases acc)
  from Cons.prems have "condRefresh_roots dres wis (condRefresh_root dres wi acc) = (cr, m1)"
    by simp
  from Cons.IH [OF this Cons.prems(2)]
  show ?case
    by (auto simp: acc Let_def split: option.splits if_splits)
qed

lemma importers_keeps_keys:
  "map_of m k \<noteq> None \<Longrightarrow> map_of (condRefresh_importers dres impRes m) k \<noteq> None"
proof (induction impRes arbitrary: m)
  case Nil
  then show ?case by simp
next
  case (Cons wi wis)
  from Cons.prems have "map_of (condRefresh_importer dres wi m) k \<noteq> None"
    by (auto simp: condRefresh_importer_def Let_def update_conv' split: option.splits)
  then show ?case by (simp add: Cons.IH)
qed

lemma importers_adds_key:
  assumes "wi \<in> set impRes"
      and "Meta dres (Ref_String (wi_Permanode wi)) = Some db"
      and "Permanode db = Some dp"
      and "Values_Get (Attr dp) ''camliImportRoot'' \<noteq> []"
  shows "map_of (condRefresh_importers dres impRes m)
           (importer_name (Values_Get (Attr dp) ''camliImportRoot'')) \<noteq> None"
  using assms(1)
proof (induction impRes arbitrary: m)
  case Nil
  then show ?case by simp
next
  case (Cons w ws)
  show ?case
  proof (cases "wi \<in> set ws")
    case True
    then show ?thesis by (simp add: Cons.IH)
  next
    case False
    with Cons.prems have "w = wi" by simp
    with assms(2-4) have "map_of (condRefresh_importer dres w m)
           (importer_name (Values_Get (Attr dp) ''camliImportRoot'')) \<noteq> None"
      by (simp add: condRefresh_importer_def Let_def update_conv' importer_name_def)
    then show ?thesis by (simp add: importers_keeps_keys)
  qed
qed

lemma refresh_importer:
  "condRefresh fs_importer (102 * Minute) (102 * Minute) vd_importer =
     (None, vd_importer_refreshed, searches @ [CallDescribe describe_importer])"
  by (simp add: vd_simps vd_importer_def vd_importer_refreshed_def fs_importer_def
      search_importer_def meta_importer_def describe_importer_def Values_Get_def
      children_get_def Replace_def newRODirV_def condRefresh_importer_def)

text \<open>
  C4, at a store without roots. The claim says that two ReadDir calls within the
  refresh time send one pair of searches. Here both searches succeed and find nothing;
  condRefresh returns before the line that sets lastQuery, so the second ReadDir, one
  second later, sends the pair again, and lastQuery is still the zero time.
\<close>

theorem versionsDir_ReadDir_empty_not_cached:
  "versionsDir_ReadDir fs_empty (100 * Minute) (100 * Minute) vd_new = (Inr [], vd_empty, searches)
   \<and> versionsDir_ReadDir fs_empty (100 * Minute + 1000000000) (100 * Minute + 1000000000) vd_empty
       = (Inr [], vd_empty, searches)
   \<and> vd_lastQuery vd_empty = 0"
  by (simp add: vd_simps vd_new_def vd_empty_def fs_empty_def)

text \<open>
  C6, at a roots directory that has looked up photos and is then refreshed against a
  store without roots. The claim says that the memoized child of a name that is no
  longer found is evicted. The refresh succeeds and the listing is empty, but
  condRefresh returns before the eviction loop, so the child stays in the cache; when
  photos is found again two minutes later, on another permanode, Lookup returns that
  old child for the old permanode.
\<close>

theorem condRefresh_empty_keeps_children:
  "versionsDir_Lookup fs_photos (100 * Minute) (100 * Minute) vd_new ''photos'' =
     Inr (Inr (newRODirV (MkRef ''sha1-p1'') ''photos''), vd_photos,
          searches @ [CallDescribe describe_photos])
   \<and> condRefresh fs_empty (102 * Minute) (102 * Minute) vd_photos = (None, vd_photos_stale, searches)
   \<and> children_get (vd_children vd_photos_stale) ''photos'' =
       Some (newRODirV (MkRef ''sha1-p1'') ''photos'')
   \<and> versionsDir_Lookup fs_photos_moved (104 * Minute) (104 * Minute) vd_photos_stale ''photos'' =
       Inr (Inr (newRODirV (MkRef ''sha1-p1'') ''photos''), vd_photos_moved,
            searches @ [CallDescribe describe_photos_moved])"
  by (simp add: vd_simps vd_new_def vd_photos_def vd_photos_stale_def fs_empty_def fs_photos_def
      search_photos_def meta_photos_def describe_photos_def Values_Get_def children_get_def
      fs_photos_moved_def search_photos_moved_def meta_photos_moved_def
      describe_photos_moved_def vd_photos_moved_def)

text \<open>
  C5 as stated fails when the Describe of a refresh fails: the searches have succeeded,
  and the name map has already been replaced by an empty one.
\<close>

theorem condRefresh_Describe_failure_counterexample:
  "condRefresh fs_describe_down (102 * Minute) (102 * Minute) vd_photos =
     (Some EIO, vd_photos_stale, searches @ [CallDescribe describe_photos])
   \<and> vd_m vd_photos = [(''photos'', MkRef ''sha1-p1'')]
   \<and> vd_m vd_photos_stale = []"
  by (simp add: vd_simps vd_photos_def vd_photos_stale_def fs_describe_down_def
      search_photos_def describe_photos_def)

text \<open>
  C5, amended: when a refresh is due and either search fails, or the searches find
  something and the Describe fails, condRefresh returns EIO with the last-refresh time
  unchanged and every memoized child still found under its name; a failing search
  leaves the whole state as it was. Therefore the failure is not cached: any later
  condRefresh sends the two searches again.
\<close>

theorem condRefresh_failure_keeps_timestamp_and_children:
  assumes due: "\<not> After (vd_lastQuery n) (now - versionsRefreshTime)"
      and fails: "search_fails fs \<or> describe_fails fs"
  shows "\<exists>n' calls. condRefresh fs now now' n = (Some EIO, n', calls)
           \<and> vd_lastQuery n' = vd_lastQuery n
           \<and> children_get (vd_children n') = children_get (vd_children n)
           \<and> (search_fails fs \<longrightarrow> n' = n)
           \<and> (\<forall>fs2 t t'. now \<le> t \<longrightarrow> take 2 (snd (snd (condRefresh fs2 t t' n'))) = searches)"
proof -
  have retry: "take 2 (snd (snd (condRefresh fs2 t t' n'))) = searches"
    if "vd_lastQuery n' = vd_lastQuery n" "now \<le> t" for fs2 t t' n'
  proof -
    from due that have "\<not> After (vd_lastQuery n') (t - versionsRefreshTime)"
      by (simp add: After_def)
    then show ?thesis by (rule condRefresh_due_searches)
  qed
  show ?thesis
  proof (cases "search_fails fs")
    case True
    with due have "condRefresh fs now now' n = (Some EIO, n, searches)"
      by (rule condRefresh_search_fails)
    with retry show ?thesis by simp
  next
    case False
    with fails have "describe_fails fs" by simp
    with due obtain calls where
      r: "condRefresh fs now now' n =
           (Some EIO,
            n\<lparr>vd_m := [], vd_children := Some (case vd_children n of None \<Rightarrow> [] | Some ch \<Rightarrow> ch)\<rparr>,
            calls)"
      using condRefresh_describe_fails by blast
    let ?n' = "n\<lparr>vd_m := [], vd_children := Some (case vd_children n of None \<Rightarrow> [] | Some ch \<Rightarrow> ch)\<rparr>"
    have "children_get (vd_children ?n') = children_get (vd_children n)"
      by (auto simp: children_get_def fun_eq_iff split: option.splits)
    with r False retry [of ?n'] show ?thesis by simp
  qed
qed

theorem condRefresh_failure_keeps_timestamp_and_children_witness:
  "\<not> After (vd_lastQuery vd_photos) (102 * Minute - versionsRefreshTime)
   \<and> describe_fails fs_describe_down
   \<and> condRefresh fs_describe_down (102 * Minute) (102 * Minute) vd_photos =
       (Some EIO, vd_photos_stale, searches @ [CallDescribe describe_photos])
   \<and> vd_lastQuery vd_photos_stale = vd_lastQuery vd_photos
   \<and> children_get (vd_children vd_photos_stale) = children_get (vd_children vd_photos)
   \<and> take 2 (snd (snd (condRefresh fs_photos (103 * Minute) (103 * Minute) vd_photos_stale)))
       = searches"
proof -
  have due: "\<not> After (vd_lastQuery vd_photos) (102 * Minute - versionsRefreshTime)"
    by (simp add: After_def vd_photos_def versionsRefreshTime_def Minute_def)
  have fails: "describe_fails fs_describe_down"
    by (simp add: describe_fails_def fs_describe_down_def search_photos_def rootReq_def
        impReq_def condRefresh_request_def)
  have run: "condRefresh fs_describe_down (102 * Minute) (102 * Minute) vd_photos =
       (Some EIO, vd_photos_stale, searches @ [CallDescribe describe_photos])"
    by (simp add: vd_simps vd_photos_def vd_photos_stale_def fs_describe_down_def
        search_photos_def describe_photos_def)
  from condRefresh_failure_keeps_timestamp_and_children
    [of vd_photos "102 * Minute" fs_describe_down "102 * Minute", OF due disjI2 [OF fails]]
  obtain n' calls where
    "condRefresh fs_describe_down (102 * Minute) (102 * Minute) vd_photos = (Some EIO, n', calls)"
    "vd_lastQuery n' = vd_lastQuery vd_photos"
    "children_get (vd_children n') = children_get (vd_children vd_photos)"
    "\<forall>fs2 t t'. 102 * Minute \<le> t \<longrightarrow> take 2 (snd (snd (condRefresh fs2 t t' n'))) = searches"
    by blast
  with run have "vd_lastQuery vd_photos_stale = vd_lastQuery vd_photos"
    "children_get (vd_children vd_photos_stale) = children_get (vd_children vd_photos)"
    "102 * Minute \<le> 103 * Minute \<longrightarrow>
       take 2 (snd (snd (condRefresh fs_photos (103 * Minute) (103 * Minute) vd_photos_stale)))
         = searches"
    by auto
  with due fails run show ?thesis by (simp add: Minute_def)
qed

text \<open>
  C10 as stated fails when a root is literally named like an import root's entry: the
  name importer-x is then in the kept set, and the memoized child under it survives
  the refresh and is what Lookup returns.
\<close>

theorem condRefresh_importer_kept_counterexample:
  "condRefresh fs_collision (102 * Minute) (102 * Minute) vd_collision =
     (None, vd_collision_refreshed, searches @ [CallDescribe describe_collision])
   \<and> children_get (vd_children vd_collision_refreshed) ''importer-x'' =
       Some (RoDirV (MkRef ''sha1-i2'') ''importer-x'' (Some []) None)
   \<and> versionsDir_Lookup fs_collision (102 * Minute + 1) (102 * Minute + 1)
        vd_collision_refreshed ''importer-x'' =
       Inr (Inr (RoDirV (MkRef ''sha1-i2'') ''importer-x'' (Some []) None),
            vd_collision_refreshed, [])"
  by (simp add: vd_simps vd_collision_def vd_collision_refreshed_def fs_collision_def
      search_collision_def meta_collision_def describe_collision_def Values_Get_def
      children_get_def Replace_def condRefresh_importer_def)

text \<open>
  C10, amended: the kept set of a refresh that reaches the eviction loop holds only
  camliRoot values of described roots. So for every import root that such a refresh
  finds, whose entry name (importer- and the sanitized camliImportRoot value) is not
  also the literal name of a found root: the name is in the new name map, no child is
  memoized under it after the refresh, whatever was memoized before, and a Lookup of
  the name within the refresh time builds the node anew with newRODirV and memoizes
  it, without any query.
\<close>

theorem condRefresh_evicts_importer_children:
  assumes due: "\<not> After (vd_lastQuery n) (now - versionsRefreshTime)"
      and roots: "GetPermanodesWithAttr fs rootReq = Inr rootRes"
      and imps: "GetPermanodesWithAttr fs impReq = Inr impRes"
      and desc: "Describe fs (condRefresh_request rootRes impRes) = Inr dres"
      and wi: "wi \<in> set impRes"
      and db: "Meta dres (Ref_String (wi_Permanode wi)) = Some db"
      and dp: "Permanode db = Some dp"
      and nm: "Values_Get (Attr dp) ''camliImportRoot'' = nm" "nm \<noteq> []"
      and lit: "importer_name nm \<notin> set (fst (condRefresh_roots dres rootRes ([], [])))"
  shows "(\<forall>x \<in> set (fst (condRefresh_roots dres rootRes ([], []))).
            \<exists>r \<in> set rootRes. \<exists>rb rp. Meta dres (Ref_String (wi_Permanode r)) = Some rb
               \<and> Permanode rb = Some rp \<and> x = Values_Get (Attr rp) ''camliRoot'')
       \<and> (\<exists>n' br. condRefresh fs now now' n =
                     (None, n', searches @ [CallDescribe (condRefresh_request rootRes impRes)])
            \<and> vd_lastQuery n' = now'
            \<and> map_of (vd_m n') (importer_name nm) = Some br
            \<and> children_get (vd_children n') (importer_name nm) = None
            \<and> (\<forall>fs2 t t'. Valid br \<and> After now' (t - versionsRefreshTime) \<longrightarrow>
                 (\<exists>n''. versionsDir_Lookup fs2 t t' n' (importer_name nm) =
                          Inr (Inr (newRODirV br (importer_name nm)), n'', [])
                      \<and> children_get (vd_children n'') (importer_name nm) =
                          Some (newRODirV br (importer_name nm)))))"
proof -
  obtain currentRoots m1 where
    cr: "condRefresh_roots dres rootRes ([], []) = (currentRoots, m1)"
    by (cases "condRefresh_roots dres rootRes ([], [])")
  let ?name = "importer_name nm"
  let ?ch = "AList.restrict (set currentRoots)
               (case vd_children n of None \<Rightarrow> [] | Some ch \<Rightarrow> ch)"
  let ?n' = "n\<lparr>vd_m := condRefresh_importers dres impRes m1, vd_children := Some ?ch,
               vd_lastQuery := now'\<rparr>"
  have literal: "\<exists>r \<in> set rootRes. \<exists>rb rp. Meta dres (Ref_String (wi_Permanode r)) = Some rb
               \<and> Permanode rb = Some rp \<and> x = Values_Get (Attr rp) ''camliRoot''"
    if "x \<in> set currentRoots" for x
    using currentRoots_literal [OF cr that] by simp
  from wi have refs: "req_BlobRefs (condRefresh_request rootRes impRes) \<noteq> []"
    by (auto simp: condRefresh_request_def)
  from due roots imps refs desc cr
  have run: "condRefresh fs now now' n =
      (None, ?n', searches @ [CallDescribe (condRefresh_request rootRes impRes)])"
    by (rule condRefresh_completes)
  from wi db dp nm have "map_of (condRefresh_importers dres impRes m1) ?name \<noteq> None"
    using importers_adds_key by blast
  then obtain br where br: "map_of (vd_m ?n') ?name = Some br" by auto
  from lit cr have out: "?name \<notin> set currentRoots" by simp
  then have gone: "children_get (vd_children ?n') ?name = None"
    by (simp add: children_get_def)
  have fresh: "\<exists>n''. versionsDir_Lookup fs2 t t' ?n' ?name =
                          Inr (Inr (newRODirV br ?name), n'', [])
                      \<and> children_get (vd_children n'') ?name = Some (newRODirV br ?name)"
    if "Valid br" "After now' (t - versionsRefreshTime)" for fs2 t t'
  proof -
    from that(2) have "condRefresh fs2 t t' ?n' = (None, ?n', [])"
      by (simp add: condRefresh_fresh)
    with br that(1) gone have "versionsDir_Lookup fs2 t t' ?n' ?name =
        Inr (Inr (newRODirV br ?name),
             ?n'\<lparr>vd_children := Some (AList.update ?name (newRODirV br ?name) ?ch)\<rparr>, [])"
      by (simp add: versionsDir_Lookup_def)
    moreover have "children_get
        (vd_children (?n'\<lparr>vd_children := Some (AList.update ?name (newRODirV br ?name) ?ch)\<rparr>))
        ?name = Some (newRODirV br ?name)"
      by (simp add: children_get_def update_conv')
    ultimately show ?thesis by blast
  qed
  have "vd_lastQuery ?n' = now'" by simp
  with run br gone fresh have "\<exists>n' br. condRefresh fs now now' n =
                     (None, n', searches @ [CallDescribe (condRefresh_request rootRes impRes)])
            \<and> vd_lastQuery n' = now'
            \<and> map_of (vd_m n') ?name = Some br
            \<and> children_get (vd_children n') ?name = None
            \<and> (\<forall>fs2 t t'. Valid br \<and> After now' (t - versionsRefreshTime) \<longrightarrow>
                 (\<exists>n''. versionsDir_Lookup fs2 t t' n' ?name =
                          Inr (Inr (newRODirV br ?name), n'', [])
                      \<and> children_get (vd_children n'') ?name = Some (newRODirV br ?name)))"
    by blast
  with literal cr show ?thesis by simp
qed

theorem condRefresh_evicts_importer_children_witness:
  "\<not> After (vd_lastQuery vd_importer) (102 * Minute - versionsRefreshTime)
   \<and> children_get (vd_children vd_importer) ''importer-twitter-bob-feed'' =
       Some (RoDirV (MkRef ''sha1-i1'') ''importer-twitter-bob-feed'' (Some []) None)
   \<and> importer_name ''twitter:bob/feed'' = ''importer-twitter-bob-feed''
   \<and> condRefresh fs_importer (102 * Minute) (102 * Minute) vd_importer =
       (None, vd_importer_refreshed, searches @ [CallDescribe describe_importer])
   \<and> map_of (vd_m vd_importer_refreshed) ''importer-twitter-bob-feed'' = Some (MkRef ''sha1-i1'')
   \<and> children_get (vd_children vd_importer_refreshed) ''importer-twitter-bob-feed'' = None
   \<and> versionsDir_Lookup fs_importer (102 * Minute + 1) (102 * Minute + 1)
         vd_importer_refreshed ''importer-twitter-bob-feed'' =
       Inr (Inr (newRODirV (MkRef ''sha1-i1'') ''importer-twitter-bob-feed''),
            vd_importer_refreshed
              \<lparr>vd_children :=
                 Some [(''photos'', newRODirV (MkRef ''sha1-p1'') ''photos''),
                       (''importer-twitter-bob-feed'',
                        newRODirV (MkRef ''sha1-i1'') ''importer-twitter-bob-feed'')]\<rparr>,
            [])"
proof -
  have again: "versionsDir_Lookup fs_importer (102 * Minute + 1) (102 * Minute + 1)
         vd_importer_refreshed ''importer-twitter-bob-feed'' =
       Inr (Inr (newRODirV (MkRef ''sha1-i1'') ''importer-twitter-bob-feed''),
            vd_importer_refreshed
              \<lparr>vd_children :=
                 Some [(''photos'', newRODirV (MkRef ''sha1-p1'') ''photos''),
                       (''importer-twitter-bob-feed'',
                        newRODirV (MkRef ''sha1-i1'') ''importer-twitter-bob-feed'')]\<rparr>,
            [])"
    by (simp add: vd_simps vd_importer_refreshed_def children_get_def)
  let ?dres = "\<lparr>Meta = map_of meta_importer\<rparr>"
  let ?wi = "\<lparr>wi_Permanode = MkRef ''sha1-i1''\<rparr>"
  let ?db = "\<lparr>BlobRef = MkRef ''sha1-i1'', CamliType = ''permanode'',
              Permanode = Some \<lparr>Attr = [(''camliImportRoot'', [''twitter:bob/feed''])]\<rparr>,
              File = None\<rparr>"
  let ?dp = "\<lparr>Attr = [(''camliImportRoot'', [''twitter:bob/feed''])]\<rparr>"
  have due: "\<not> After (vd_lastQuery vd_importer) (102 * Minute - versionsRefreshTime)"
    by (simp add: After_def vd_importer_def versionsRefreshTime_def Minute_def)
  have roots: "GetPermanodesWithAttr fs_importer rootReq = Inr [\<lparr>wi_Permanode = MkRef ''sha1-p1''\<rparr>]"
    by (simp add: fs_importer_def search_importer_def rootReq_def)
  have imps: "GetPermanodesWithAttr fs_importer impReq = Inr [?wi]"
    by (simp add: fs_importer_def search_importer_def impReq_def)
  have desc: "Describe fs_importer
      (condRefresh_request [\<lparr>wi_Permanode = MkRef ''sha1-p1''\<rparr>] [?wi]) = Inr ?dres"
    by (simp add: fs_importer_def)
  have wi: "?wi \<in> set [?wi]" by simp
  have db: "Meta ?dres (Ref_String (wi_Permanode ?wi)) = Some ?db"
    by (simp add: meta_importer_def)
  have dp: "Permanode ?db = Some ?dp" by simp
  have nm: "Values_Get (Attr ?dp) ''camliImportRoot'' = ''twitter:bob/feed''"
    by (simp add: Values_Get_def)
  have ne: "''twitter:bob/feed'' \<noteq> []" by simp
  have name: "importer_name ''twitter:bob/feed'' = ''importer-twitter-bob-feed''"
    by (simp add: importer_name_def Replace_def)
  have lit: "importer_name ''twitter:bob/feed'' \<notin>
      set (fst (condRefresh_roots ?dres [\<lparr>wi_Permanode = MkRef ''sha1-p1''\<rparr>] ([], [])))"
    by (simp add: name meta_importer_def Values_Get_def Let_def)
  have before: "children_get (vd_children vd_importer) ''importer-twitter-bob-feed'' =
       Some (RoDirV (MkRef ''sha1-i1'') ''importer-twitter-bob-feed'' (Some []) None)"
    by (simp add: children_get_def vd_importer_def)
  from condRefresh_evicts_importer_children
    [OF due roots imps desc wi db dp nm ne lit, of "102 * Minute"]
  obtain n' br where
    "condRefresh fs_importer (102 * Minute) (102 * Minute) vd_importer =
       (None, n', searches @
          [CallDescribe (condRefresh_request [\<lparr>wi_Permanode = MkRef ''sha1-p1''\<rparr>] [?wi])])"
    "map_of (vd_m n') (importer_name ''twitter:bob/feed'') = Some br"
    "children_get (vd_children n') (importer_name ''twitter:bob/feed'') = None"
    by blast
  with refresh_importer name
  have "children_get (vd_children vd_importer_refreshed) ''importer-twitter-bob-feed'' = None"
    by simp
  moreover have "map_of (vd_m vd_importer_refreshed) ''importer-twitter-bob-feed'' =
      Some (MkRef ''sha1-i1'')"
    by (simp add: vd_importer_refreshed_def)
  ultimately show ?thesis
    using due before name refresh_importer again by simp
qed

section \<open>Mutating operations\<close>




end
